theory Spec2Isabelle
  imports Main "HOL-Library.AList" "HOL-Library.Sublist"
begin

section \<open>Python values read from JSON\<close>

text \<open>
  The program is dynamically typed: \<^verbatim>\<open>json.load\<close> hands it arbitrary JSON, and
  \<^verbatim>\<open>VISItem.from_dict\<close> stores what it finds without checking any type. The fields of
  the records below therefore hold JSON values, not strings. \<open>JNull\<close> is Python's
  \<^verbatim>\<open>None\<close>, \<open>JObj\<close> a \<^verbatim>\<open>dict\<close> in insertion order (its keys are distinct in every
  value \<^verbatim>\<open>json.load\<close> returns), \<open>JArr\<close> a \<^verbatim>\<open>list\<close>. Floating-point numbers are
  not modelled.
\<close>

datatype json =
    JNull
  | JBool bool
  | JNum int
  | JStr string
  | JArr "json list"
  | JObj "(string \<times> json) list"

datatype error =
    KeyError
  | TypeError
  | AttributeError
  | ValueError
  | FileNotFoundError
  | PermissionError
  | JSONDecodeError
  | OSError
  | RecursionError
  | UnicodeEncodeError
  | CapabilityError

text \<open>\<^verbatim>\<open>d.get(key, default)\<close> on a dict.\<close>

definition dict_get :: "(string \<times> json) list \<Rightarrow> string \<Rightarrow> json \<Rightarrow> json" where
  "dict_get d k dflt = (case map_of d k of None \<Rightarrow> dflt | Some v \<Rightarrow> v)"

text \<open>\<^verbatim>\<open>x.get(key, default)\<close> on any value: only a dict has the method.\<close>

fun py_get :: "json \<Rightarrow> string \<Rightarrow> json \<Rightarrow> error + json" where
  "py_get (JObj d) k dflt = Inr (dict_get d k dflt)"
| "py_get _ k dflt = Inl AttributeError"

text \<open>
  \<^verbatim>\<open>for x in v\<close>: a list yields its elements, a dict its keys, a string its characters;
  \<^verbatim>\<open>None\<close>, booleans and numbers are not iterable.
\<close>

fun py_iter :: "json \<Rightarrow> error + json list" where
  "py_iter (JArr xs) = Inr xs"
| "py_iter (JObj d) = Inr (map (\<lambda>kv. JStr (fst kv)) d)"
| "py_iter (JStr s) = Inr (map (\<lambda>c. JStr [c]) s)"
| "py_iter _ = Inl TypeError"

text \<open>Python truthiness (\<^verbatim>\<open>bool(v)\<close>, \<^verbatim>\<open>if v\<close>, \<^verbatim>\<open>not v\<close>).\<close>

fun truthy :: "json \<Rightarrow> bool" where
  "truthy JNull = False"
| "truthy (JBool b) = b"
| "truthy (JNum n) = (n \<noteq> 0)"
| "truthy (JStr s) = (s \<noteq> [])"
| "truthy (JArr xs) = (xs \<noteq> [])"
| "truthy (JObj d) = (d \<noteq> [])"

fun is_dict :: "json \<Rightarrow> bool" where
  "is_dict (JObj d) = True"
| "is_dict _ = False"

section \<open>The item record (\<^verbatim>\<open>vis_item.py\<close>)\<close>

record Judgment =
  eval_model :: json
  gen_model :: json
  analysis :: json
  answer :: json

record EvalEntry =
  source :: json
  ground :: json
  question :: json
  question_type :: json
  judgments :: "Judgment list"

text \<open>
  An element of \<^verbatim>\<open>VISItem.evaluation\<close>: \<^verbatim>\<open>from_dict\<close> turns a dict into an
  \<^verbatim>\<open>EvalEntry\<close> and keeps anything else as it is.
\<close>

datatype eval_elem = Entry EvalEntry | Raw json

text \<open>The field \<^verbatim>\<open>id\<close> is named \<open>item_id\<close> here (\<open>id\<close> is HOL's identity).\<close>

record VISItem =
  item_id :: json
  reference_image_url :: json
  t2i_prompt :: json
  chart_type :: json
  generation :: json
  evaluation :: "eval_elem list"

subsection \<open>Parsing\<close>

text \<open>
  The \<^verbatim>\<open>Judgment(...)\<close> built in \<^verbatim>\<open>EvalEntry.from_dict\<close> for a dict \<open>j\<close>:
  every field is \<^verbatim>\<open>j.get(name, "")\<close>.
\<close>

definition judgment_of_dict :: "(string \<times> json) list \<Rightarrow> Judgment" where
  "judgment_of_dict j =
     \<lparr>eval_model = dict_get j ''eval_model'' (JStr []),
      gen_model = dict_get j ''gen_model'' (JStr []),
      analysis = dict_get j ''analysis'' (JStr []),
      answer = dict_get j ''answer'' (JStr [])\<rparr>"

text \<open>
  The loop over \<^verbatim>\<open>judgments_data\<close>: a dict is converted and appended; the second branch
  (\<^verbatim>\<open>isinstance(j, Judgment)\<close>) never fires on JSON; anything else is skipped.
\<close>

fun parse_judgments :: "json list \<Rightarrow> Judgment list" where
  "parse_judgments [] = []"
| "parse_judgments (JObj j # js) = judgment_of_dict j # parse_judgments js"
| "parse_judgments (_ # js) = parse_judgments js"

text \<open>\<^verbatim>\<open>EvalEntry.from_dict(data)\<close> for a dict \<open>data\<close>.\<close>

definition EvalEntry_from_dict :: "(string \<times> json) list \<Rightarrow> error + EvalEntry" where
  "EvalEntry_from_dict d =
     (case py_iter (dict_get d ''judgments'' (JArr [])) of
        Inl e \<Rightarrow> Inl e
      | Inr js \<Rightarrow>
          Inr \<lparr>source = dict_get d ''source'' (JStr []),
               ground = dict_get d ''ground'' (JStr []),
               question = dict_get d ''question'' (JStr []),
               question_type = dict_get d ''question_type'' (JStr []),
               judgments = parse_judgments js\<rparr>)"

text \<open>
  One pass of the loop over \<^verbatim>\<open>info_data["evaluation"]\<close> in \<^verbatim>\<open>VISItem.from_dict\<close>:
  a dict goes through \<^verbatim>\<open>EvalEntry.from_dict\<close> and has its \<^verbatim>\<open>source\<close> set again when
  the key is present; any other value is appended unchanged.
\<close>

fun parse_entry :: "json \<Rightarrow> error + eval_elem" where
  "parse_entry (JObj d) =
     (case EvalEntry_from_dict d of
        Inl e \<Rightarrow> Inl e
      | Inr ent \<Rightarrow>
          (case map_of d ''source'' of
             None \<Rightarrow> Inr (Entry ent)
           | Some s \<Rightarrow> Inr (Entry (ent\<lparr>source := s\<rparr>))))"
| "parse_entry j = Inr (Raw j)"

fun parse_entries :: "json list \<Rightarrow> error + eval_elem list" where
  "parse_entries [] = Inr []"
| "parse_entries (j # js) =
     (case parse_entry j of
        Inl e \<Rightarrow> Inl e
      | Inr x \<Rightarrow> (case parse_entries js of Inl e \<Rightarrow> Inl e | Inr xs \<Rightarrow> Inr (x # xs)))"

text \<open>
  The body of \<^verbatim>\<open>VISItem.from_dict\<close> after \<^verbatim>\<open>json.load\<close>. \<^verbatim>\<open>info_data["id"]\<close>
  raises \<^verbatim>\<open>KeyError\<close> on a dict without the key and \<^verbatim>\<open>TypeError\<close> on a value that
  is not a dict. The dataclass defaults fill the fields that are not passed:
  \<^verbatim>\<open>None\<close> for the three descriptive strings, an empty dict, an empty list.
\<close>

definition VISItem_of_json :: "json \<Rightarrow> error + VISItem" where
  "VISItem_of_json info_data =
     (case info_data of
        JObj d \<Rightarrow>
          (case map_of d ''id'' of
             None \<Rightarrow> Inl KeyError
           | Some i \<Rightarrow>
               (case (case map_of d ''evaluation'' of
                        None \<Rightarrow> Inr []
                      | Some ev \<Rightarrow>
                          (case py_iter ev of Inl e \<Rightarrow> Inl e | Inr es \<Rightarrow> parse_entries es)) of
                  Inl e \<Rightarrow> Inl e
                | Inr evl \<Rightarrow>
                    Inr \<lparr>item_id = i,
                         reference_image_url = dict_get d ''reference_image_url'' JNull,
                         t2i_prompt = dict_get d ''t2i_prompt'' JNull,
                         chart_type = dict_get d ''chart_type'' JNull,
                         generation = dict_get d ''generation'' (JObj []),
                         evaluation = evl\<rparr>))
      | _ \<Rightarrow> Inl TypeError)"

section \<open>Strings and paths\<close>

text \<open>
  Strings are lists of one-byte characters, so the model is exact on ASCII text.
  \<open>split_sep c s\<close> is \<^verbatim>\<open>s.split(c)\<close> for a one-character separator,
  \<open>replace_char a b s\<close> is \<^verbatim>\<open>s.replace(a, b)\<close> for one-character strings.
\<close>

fun split_sep :: "char \<Rightarrow> string \<Rightarrow> string list" where
  "split_sep c [] = [[]]"
| "split_sep c (x # xs) =
     (if x = c then [] # split_sep c xs
      else (case split_sep c xs of [] \<Rightarrow> [[x]] | y # ys \<Rightarrow> (x # y) # ys))"

definition replace_char :: "char \<Rightarrow> char \<Rightarrow> string \<Rightarrow> string" where
  "replace_char a b s = map (\<lambda>c. if c = a then b else c) s"

definition startswith_sep :: "string \<Rightarrow> bool" where
  "startswith_sep s = (case s of [] \<Rightarrow> False | c # _ \<Rightarrow> c = CHR ''/'')"

definition endswith :: "string \<Rightarrow> string \<Rightarrow> bool" where
  "endswith s sfx = (length sfx \<le> length s \<and> drop (length s - length sfx) s = sfx)"

text \<open>\<^verbatim>\<open>m in s\<close> for two strings: \<open>m\<close> occurs in \<open>s\<close> as a substring.\<close>

fun contains_str :: "string \<Rightarrow> string \<Rightarrow> bool" where
  "contains_str m [] = (m = [])"
| "contains_str m (c # cs) = (take (length m) (c # cs) = m \<or> contains_str m cs)"

text \<open>
  The characters \<^verbatim>\<open>str.strip()\<close> removes, within ASCII: codes 9 to 13 and 28 to 32.
\<close>

definition is_space :: "char \<Rightarrow> bool" where
  "is_space c = (let n = (of_char c :: nat) in (9 \<le> n \<and> n \<le> 13) \<or> (28 \<le> n \<and> n \<le> 32))"

definition strip :: "string \<Rightarrow> string" where
  "strip s = rev (dropWhile is_space (rev (dropWhile is_space s)))"

text \<open>
  A \<^verbatim>\<open>pathlib.Path\<close> on POSIX: whether it is anchored at the root, and its components.
  \<^verbatim>\<open>Path(s)\<close> drops empty and \<^verbatim>\<open>.\<close> components; \<^verbatim>\<open>p / s\<close> restarts from \<open>s\<close>
  when \<open>s\<close> is absolute. (The special root \<^verbatim>\<open>//\<close> of POSIX is not modelled.)
\<close>

datatype path = PosixPath (anchored: bool) (parts: "string list")

definition Path :: "string \<Rightarrow> path" where
  "Path s = PosixPath (startswith_sep s)
              (filter (\<lambda>p. p \<noteq> [] \<and> p \<noteq> ''.'') (split_sep (CHR ''/'') s))"

definition truediv :: "path \<Rightarrow> string \<Rightarrow> path" where
  "truediv p s =
     (if startswith_sep s then Path s
      else PosixPath (anchored p) (parts p @ parts (Path s)))"

fun join_parts :: "string list \<Rightarrow> string" where
  "join_parts [] = []"
| "join_parts [p] = p"
| "join_parts (p # q # ps) = p @ ''/'' @ join_parts (q # ps)"

text \<open>\<^verbatim>\<open>str(p)\<close>.\<close>

definition path_str :: "path \<Rightarrow> string" where
  "path_str p =
     (if anchored p then ''/'' @ join_parts (parts p)
      else if parts p = [] then ''.''
      else join_parts (parts p))"

text \<open>\<^verbatim>\<open>os.path.join(a, b, c, ...)\<close> and \<^verbatim>\<open>os.path.dirname(p)\<close> of \<^verbatim>\<open>posixpath\<close>.\<close>

definition os_path_join_step :: "string \<Rightarrow> string \<Rightarrow> string" where
  "os_path_join_step b path =
     (if startswith_sep b then b
      else if path = [] \<or> endswith path ''/'' then path @ b
      else path @ ''/'' @ b)"

definition os_path_join :: "string \<Rightarrow> string list \<Rightarrow> string" where
  "os_path_join a ps = fold os_path_join_step ps a"

definition os_path_dirname :: "string \<Rightarrow> string" where
  "os_path_dirname p =
     (let head = rev (dropWhile (\<lambda>c. c \<noteq> CHR ''/'') (rev p))
      in if head \<noteq> [] \<and> \<not> list_all (\<lambda>c. c = CHR ''/'') head
         then rev (dropWhile (\<lambda>c. c = CHR ''/'') (rev head))
         else head)"

section \<open>The file store\<close>

text \<open>
  What the file system answers for a path, keyed by the path string given to
  \<^verbatim>\<open>open\<close> (for a \<^verbatim>\<open>Path\<close>, its \<^verbatim>\<open>str\<close>). Two strings naming one file are
  not identified and directories are not tracked. \<open>None\<close> is a path at which nothing
  exists. A file is JSON text (held as the value \<^verbatim>\<open>json.load\<close> returns for it), other
  content such as an image or a file cut short by a failed write, or a file that exists
  and cannot be opened. \<open>NoStat\<close> is a path the system refuses to look up with an error
  other than "absent": a name of more than 255 characters in a directory that exists
  (\<^verbatim>\<open>ENAMETOOLONG\<close>), a directory that may not be searched (\<^verbatim>\<open>EACCES\<close>). There
  \<^verbatim>\<open>stat\<close>, \<^verbatim>\<open>open\<close> and \<^verbatim>\<open>mkdir\<close> raise \<^verbatim>\<open>OSError\<close>.
\<close>

datatype file_content = JsonText json | Blob | Unreadable | NoStat

type_synonym filesystem = "string \<Rightarrow> file_content option"

text \<open>
  \<^verbatim>\<open>p.exists()\<close>: \<^verbatim>\<open>pathlib\<close> turns the errors of \<^verbatim>\<open>stat\<close> that mean "absent" into
  \<^verbatim>\<open>False\<close> and raises the others again.
\<close>

definition path_exists :: "filesystem \<Rightarrow> path \<Rightarrow> error + bool" where
  "path_exists fs p =
     (case fs (path_str p) of
        None \<Rightarrow> Inr False
      | Some c \<Rightarrow> if c = NoStat then Inl OSError else Inr True)"

text \<open>\<^verbatim>\<open>json.load(open(path, "r"))\<close>.\<close>

definition json_load :: "filesystem \<Rightarrow> string \<Rightarrow> error + json" where
  "json_load fs p =
     (case fs p of
        None \<Rightarrow> Inl FileNotFoundError
      | Some Unreadable \<Rightarrow> Inl PermissionError
      | Some NoStat \<Rightarrow> Inl OSError
      | Some Blob \<Rightarrow> Inl JSONDecodeError
      | Some (JsonText v) \<Rightarrow> Inr v)"

text \<open>
  \<^verbatim>\<open>open(path, "w")\<close> followed by a complete write of \<open>c\<close>, and
  \<^verbatim>\<open>open(path, "w")\<close> alone, which leaves the file empty.
\<close>

definition open_w :: "filesystem \<Rightarrow> string \<Rightarrow> error + filesystem" where
  "open_w fs p = (if fs p = Some NoStat then Inl OSError else Inr (fs(p \<mapsto> Blob)))"

definition write_file :: "filesystem \<Rightarrow> string \<Rightarrow> file_content \<Rightarrow> error + filesystem" where
  "write_file fs p c = (if fs p = Some NoStat then Inl OSError else Inr (fs(p \<mapsto> c)))"

text \<open>
  A path with a component of more than 255 characters, and the store that holds no file
  and whose directories all exist, on a file system with that limit.
\<close>

definition name_too_long :: "string \<Rightarrow> bool" where
  "name_too_long p = list_ex (\<lambda>c. 255 < length c) (split_sep (CHR ''/'') p)"

definition no_files :: filesystem where
  "no_files = (\<lambda>p. if name_too_long p then Some NoStat else None)"

section \<open>The interpreter's limits\<close>

text \<open>
  Two limits of the interpreter decide whether a record can be written, and neither is
  set in the sources: the depth of nesting \<^verbatim>\<open>dataclasses.asdict\<close> can descend before
  \<^verbatim>\<open>RecursionError\<close> (it depends on the recursion limit and on the frames in use), and
  the strings the encoding of the output file can take (a string with a lone surrogate,
  which \<^verbatim>\<open>json.load\<close> accepts from an escape, cannot be written:
  \<^verbatim>\<open>UnicodeEncodeError\<close>). They are parameters here.
\<close>

record runtime =
  asdict_depth :: nat
  encodable :: "string \<Rightarrow> bool"

fun depth :: "json \<Rightarrow> nat" where
  "depth (JArr xs) = Suc (fold max (map depth xs) 0)"
| "depth (JObj d) = Suc (fold max (map (\<lambda>kv. depth (snd kv)) d) 0)"
| "depth _ = 0"

fun all_strings :: "(string \<Rightarrow> bool) \<Rightarrow> json \<Rightarrow> bool" where
  "all_strings P (JStr s) = P s"
| "all_strings P (JArr xs) = list_all (all_strings P) xs"
| "all_strings P (JObj d) = list_all (\<lambda>kv. P (fst kv) \<and> all_strings P (snd kv)) d"
| "all_strings P _ = True"

text \<open>\<^verbatim>\<open>os.makedirs(d, exist_ok=True)\<close>: the empty path raises.\<close>

definition os_makedirs :: "string \<Rightarrow> error option" where
  "os_makedirs d = (if d = [] then Some FileNotFoundError else None)"

section \<open>Loading and saving (\<^verbatim>\<open>vis_item.py\<close>)\<close>

text \<open>\<^verbatim>\<open>VISItem.from_dict(info_path)\<close>.\<close>

definition from_dict :: "filesystem \<Rightarrow> string \<Rightarrow> error + VISItem" where
  "from_dict fs info_path =
     (case json_load fs info_path of Inl e \<Rightarrow> Inl e | Inr info_data \<Rightarrow> VISItem_of_json info_data)"

text \<open>
  \<^verbatim>\<open>dataclasses.asdict\<close>: every dataclass instance becomes a dict of its fields in
  declaration order, lists and dicts are copied.
\<close>

definition Judgment_asdict :: "Judgment \<Rightarrow> json" where
  "Judgment_asdict j =
     JObj [(''eval_model'', eval_model j), (''gen_model'', gen_model j),
           (''analysis'', analysis j), (''answer'', answer j)]"

definition EvalEntry_asdict :: "EvalEntry \<Rightarrow> json" where
  "EvalEntry_asdict e =
     JObj [(''source'', source e), (''ground'', ground e), (''question'', question e),
           (''question_type'', question_type e),
           (''judgments'', JArr (map Judgment_asdict (judgments e)))]"

fun eval_elem_asdict :: "eval_elem \<Rightarrow> json" where
  "eval_elem_asdict (Entry e) = EvalEntry_asdict e"
| "eval_elem_asdict (Raw j) = j"

definition asdict :: "VISItem \<Rightarrow> json" where
  "asdict item =
     JObj [(''id'', item_id item),
           (''reference_image_url'', reference_image_url item),
           (''t2i_prompt'', t2i_prompt item),
           (''chart_type'', chart_type item),
           (''generation'', generation item),
           (''evaluation'', JArr (map eval_elem_asdict (evaluation item)))]"

text \<open>
  \<^verbatim>\<open>build_save_path(output_dir)\<close>: \<^verbatim>\<open>os.path.join\<close> raises \<^verbatim>\<open>TypeError\<close> on an
  \<^verbatim>\<open>id\<close> that is not a string.
\<close>

definition build_save_path :: "VISItem \<Rightarrow> string \<Rightarrow> error + string" where
  "build_save_path item output_dir =
     (case item_id item of
        JStr i \<Rightarrow> Inr (os_path_join output_dir [i, i @ ''.json''])
      | _ \<Rightarrow> Inl TypeError)"

definition resolve_save_path :: "VISItem \<Rightarrow> string \<Rightarrow> error + string" where
  "resolve_save_path item output_path =
     (if endswith output_path ''.json'' then Inr output_path
      else build_save_path item output_path)"

text \<open>
  \<^verbatim>\<open>asdict(self)\<close> under the interpreter's limit, and \<^verbatim>\<open>json.dump(data, f)\<close> into the
  file just opened: on a string that cannot be encoded it raises after part of the text
  is written, and the file stays cut short.
\<close>

definition asdict_checked :: "runtime \<Rightarrow> VISItem \<Rightarrow> error + json" where
  "asdict_checked rt item =
     (if asdict_depth rt < depth (asdict item) then Inl RecursionError
      else Inr (asdict item))"

definition json_dump :: "runtime \<Rightarrow> json \<Rightarrow> filesystem \<Rightarrow> string \<Rightarrow> error option \<times> filesystem" where
  "json_dump rt data fs p =
     (if all_strings (encodable rt) data then (None, fs(p \<mapsto> JsonText data))
      else (Some UnicodeEncodeError, fs(p \<mapsto> Blob)))"

text \<open>
  \<^verbatim>\<open>VISItem.save_item(output_path)\<close>, returning the exception it ends with, if any, and
  the file store as it leaves it. After \<^verbatim>\<open>asdict\<close> the evaluation list holds dicts and
  raw values only, none of which is an \<^verbatim>\<open>EvalEntry\<close> or has an attribute
  \<^verbatim>\<open>source\<close>, so the loop that rebuilds \<^verbatim>\<open>data["evaluation"]\<close> copies the list.
\<close>

definition save_item ::
  "runtime \<Rightarrow> VISItem \<Rightarrow> string \<Rightarrow> filesystem \<Rightarrow> error option \<times> filesystem" where
  "save_item rt item output_path fs =
     (case resolve_save_path item output_path of
        Inl e \<Rightarrow> (Some e, fs)
      | Inr save_path \<Rightarrow>
          (case os_makedirs (os_path_dirname save_path) of
             Some e \<Rightarrow> (Some e, fs)
           | None \<Rightarrow>
               (case asdict_checked rt item of
                  Inl e \<Rightarrow> (Some e, fs)
                | Inr data \<Rightarrow>
                    (case open_w fs save_path of
                       Inl e \<Rightarrow> (Some e, fs)
                     | Inr fs1 \<Rightarrow> json_dump rt data fs1 save_path))))"

section \<open>The state store (\<^verbatim>\<open>utils/state_manager.py\<close>)\<close>

text \<open>
  \<^verbatim>\<open>self.output_dir / item.id / f"{item.id}.json"\<close>; the operator \<^verbatim>\<open>/\<close> raises
  \<^verbatim>\<open>TypeError\<close> on an \<^verbatim>\<open>id\<close> that is not a string.
\<close>

definition item_json_path :: "string \<Rightarrow> json \<Rightarrow> error + path" where
  "item_json_path output_dir i =
     (case i of
        JStr s \<Rightarrow> Inr (truediv (truediv (Path output_dir) s) (s @ ''.json''))
      | _ \<Rightarrow> Inl TypeError)"

text \<open>\<^verbatim>\<open>ItemStateManager.load_item(source_path, resume)\<close>.\<close>

definition load_item :: "filesystem \<Rightarrow> string \<Rightarrow> string \<Rightarrow> bool \<Rightarrow> error + VISItem" where
  "load_item fs output_dir source_path resume =
     (if \<not> resume then from_dict fs source_path
      else
        (case from_dict fs source_path of
           Inl e \<Rightarrow> Inl e
         | Inr item_temp \<Rightarrow>
             (case item_json_path output_dir (item_id item_temp) of
                Inl e \<Rightarrow> Inl e
              | Inr output_path \<Rightarrow>
                  (case path_exists fs output_path of
                     Inl e \<Rightarrow> Inl e
                   | Inr True \<Rightarrow> from_dict fs (path_str output_path)
                   | Inr False \<Rightarrow> Inr item_temp))))"

text \<open>
  \<^verbatim>\<open>ItemStateManager.save_item(item)\<close>: the path is built, its parent created (which
  raises where the path cannot be looked up), and \<^verbatim>\<open>VISItem.save_item\<close> called with the
  path as a string.
\<close>

definition ItemStateManager_save_item ::
  "runtime \<Rightarrow> string \<Rightarrow> VISItem \<Rightarrow> filesystem \<Rightarrow> error option \<times> filesystem" where
  "ItemStateManager_save_item rt output_dir item fs =
     (case item_json_path output_dir (item_id item) of
        Inl e \<Rightarrow> (Some e, fs)
      | Inr save_path \<Rightarrow>
          if fs (path_str save_path) = Some NoStat then (Some OSError, fs)
          else save_item rt item (path_str save_path) fs)"

section \<open>Reading and growing the record (\<^verbatim>\<open>vis_item.py\<close>)\<close>

text \<open>\<^verbatim>\<open>k in v\<close>, \<^verbatim>\<open>v[k]\<close> and \<^verbatim>\<open>v[k] = x\<close> for a string \<open>k\<close>.\<close>

fun py_contains :: "json \<Rightarrow> string \<Rightarrow> error + bool" where
  "py_contains (JObj d) k = Inr (map_of d k \<noteq> None)"
| "py_contains (JArr xs) k = Inr (JStr k \<in> set xs)"
| "py_contains (JStr s) k = Inr (contains_str k s)"
| "py_contains _ k = Inl TypeError"

fun py_getitem :: "json \<Rightarrow> string \<Rightarrow> error + json" where
  "py_getitem (JObj d) k = (case map_of d k of None \<Rightarrow> Inl KeyError | Some v \<Rightarrow> Inr v)"
| "py_getitem _ k = Inl TypeError"

fun py_setitem :: "json \<Rightarrow> string \<Rightarrow> json \<Rightarrow> error + json" where
  "py_setitem (JObj d) k x = Inr (JObj (AList.update k x d))"
| "py_setitem _ k x = Inl TypeError"

text \<open>\<^verbatim>\<open>Path(v)\<close>: only a string is accepted.\<close>

fun as_path :: "json \<Rightarrow> error + path" where
  "as_path (JStr p) = Inr (Path p)"
| "as_path _ = Inl TypeError"

definition has_judgment :: "EvalEntry \<Rightarrow> string \<Rightarrow> string \<Rightarrow> bool" where
  "has_judgment e g m =
     list_ex (\<lambda>j. gen_model j = JStr g \<and> eval_model j = JStr m) (judgments e)"

definition add_judgment :: "EvalEntry \<Rightarrow> string \<Rightarrow> string \<Rightarrow> string \<Rightarrow> string \<Rightarrow> EvalEntry" where
  "add_judgment e g m an ans =
     e\<lparr>judgments := judgments e @
          [\<lparr>eval_model = JStr m, gen_model = JStr g, analysis = JStr an, answer = JStr ans\<rparr>]\<rparr>"

definition update_generation :: "VISItem \<Rightarrow> string \<Rightarrow> string \<Rightarrow> error + VISItem" where
  "update_generation item model image_path =
     (case py_setitem (generation item) model (JStr image_path) of
        Inl e \<Rightarrow> Inl e
      | Inr g \<Rightarrow> Inr (item\<lparr>generation := g\<rparr>))"

text \<open>
  \<^verbatim>\<open>model in self.generation and self.generation[model] is not None\<close>; the second
  operand is evaluated only when the first is true.
\<close>

definition check_generation_exists :: "VISItem \<Rightarrow> string \<Rightarrow> error + bool" where
  "check_generation_exists item model =
     (case py_contains (generation item) model of
        Inl e \<Rightarrow> Inl e
      | Inr False \<Rightarrow> Inr False
      | Inr True \<Rightarrow>
          (case py_getitem (generation item) model of
             Inl e \<Rightarrow> Inl e
           | Inr v \<Rightarrow> Inr (v \<noteq> JNull)))"

text \<open>
  The loop of \<^verbatim>\<open>check_evaluation_complete\<close>: it returns at the first entry without
  a judgment; an element that is not an \<^verbatim>\<open>EvalEntry\<close> has no method
  \<^verbatim>\<open>has_judgment\<close>.
\<close>

fun all_judged :: "eval_elem list \<Rightarrow> string \<Rightarrow> string \<Rightarrow> error + bool" where
  "all_judged [] g m = Inr True"
| "all_judged (Entry e # xs) g m =
     (if \<not> has_judgment e g m then Inr False else all_judged xs g m)"
| "all_judged (Raw j # xs) g m = Inl AttributeError"

definition check_evaluation_complete :: "VISItem \<Rightarrow> string \<Rightarrow> string \<Rightarrow> error + bool" where
  "check_evaluation_complete item g m =
     (if evaluation item = [] then Inr False else all_judged (evaluation item) g m)"

section \<open>Stage completion on the persisted record (\<^verbatim>\<open>utils/state_manager.py\<close>)\<close>

text \<open>\<^verbatim>\<open>v.strip()\<close>: only a string has the method.\<close>

fun py_strip :: "json \<Rightarrow> error + string" where
  "py_strip (JStr s) = Inr (strip s)"
| "py_strip _ = Inl AttributeError"

text \<open>\<^verbatim>\<open>bool(v and v.strip())\<close>, and its negation \<^verbatim>\<open>not v or not v.strip()\<close>.\<close>

definition nonblank :: "json \<Rightarrow> error + bool" where
  "nonblank v =
     (if \<not> truthy v then Inr False
      else (case py_strip v of Inl e \<Rightarrow> Inl e | Inr s \<Rightarrow> Inr (s \<noteq> [])))"

text \<open>The inner loop of \<^verbatim>\<open>_validate_questions_completion\<close> over the entries of a dimension.\<close>

fun questions_valid :: "json list \<Rightarrow> error + bool" where
  "questions_valid [] = Inr True"
| "questions_valid (entry # es) =
     (case py_get entry ''question'' (JStr []) of
        Inl e \<Rightarrow> Inl e
      | Inr q \<Rightarrow>
          (case nonblank q of
             Inl e \<Rightarrow> Inl e
           | Inr False \<Rightarrow> Inr False
           | Inr True \<Rightarrow> questions_valid es))"

fun questions_dimensions :: "json \<Rightarrow> string list \<Rightarrow> error + bool" where
  "questions_dimensions ev [] = Inr True"
| "questions_dimensions ev (dimension # ds) =
     (case py_get ev dimension (JArr []) of
        Inl e \<Rightarrow> Inl e
      | Inr entries \<Rightarrow>
          if \<not> truthy entries then Inr False
          else
            (case py_iter entries of
               Inl e \<Rightarrow> Inl e
             | Inr es \<Rightarrow>
                 (case questions_valid es of
                    Inl e \<Rightarrow> Inl e
                  | Inr False \<Rightarrow> Inr False
                  | Inr True \<Rightarrow> questions_dimensions ev ds)))"

definition validate_questions_completion :: "json \<Rightarrow> string list \<Rightarrow> error + bool" where
  "validate_questions_completion data configured_dimensions =
     (case py_get data ''evaluation'' (JObj []) of
        Inl e \<Rightarrow> Inl e
      | Inr ev \<Rightarrow> questions_dimensions ev configured_dimensions)"

text \<open>
  \<^verbatim>\<open>any(j.get("eval_model") == eval_model and j.get("gen_model") == gen_model
  for j in judgments)\<close>: it stops at the first match, and \<^verbatim>\<open>j.get\<close> raises on a \<open>j\<close>
  that is not a dict.
\<close>

fun any_judgment :: "json list \<Rightarrow> string \<Rightarrow> string \<Rightarrow> error + bool" where
  "any_judgment [] em gm = Inr False"
| "any_judgment (j # js) em gm =
     (case py_get j ''eval_model'' JNull of
        Inl e \<Rightarrow> Inl e
      | Inr a \<Rightarrow>
          if a \<noteq> JStr em then any_judgment js em gm
          else
            (case py_get j ''gen_model'' JNull of
               Inl e \<Rightarrow> Inl e
             | Inr b \<Rightarrow> if b = JStr gm then Inr True else any_judgment js em gm))"

fun entries_judged :: "json list \<Rightarrow> string \<Rightarrow> string \<Rightarrow> error + bool" where
  "entries_judged [] em gm = Inr True"
| "entries_judged (entry # es) em gm =
     (case py_get entry ''judgments'' (JArr []) of
        Inl e \<Rightarrow> Inl e
      | Inr jdata \<Rightarrow>
          (case py_iter jdata of
             Inl e \<Rightarrow> Inl e
           | Inr js \<Rightarrow>
               (case any_judgment js em gm of
                  Inl e \<Rightarrow> Inl e
                | Inr False \<Rightarrow> Inr False
                | Inr True \<Rightarrow> entries_judged es em gm)))"

fun evaluation_dimensions :: "json \<Rightarrow> string list \<Rightarrow> string \<Rightarrow> string \<Rightarrow> error + bool" where
  "evaluation_dimensions ev [] em gm = Inr True"
| "evaluation_dimensions ev (dimension # ds) em gm =
     (case py_get ev dimension (JArr []) of
        Inl e \<Rightarrow> Inl e
      | Inr entries \<Rightarrow>
          if \<not> truthy entries then Inr False
          else
            (case py_iter entries of
               Inl e \<Rightarrow> Inl e
             | Inr es \<Rightarrow>
                 (case entries_judged es em gm of
                    Inl e \<Rightarrow> Inl e
                  | Inr False \<Rightarrow> Inr False
                  | Inr True \<Rightarrow> evaluation_dimensions ev ds em gm)))"

text \<open>
  \<^verbatim>\<open>_validate_evaluation_completion\<close>: \<^verbatim>\<open>method.split("_", 1)\<close> cuts the method at
  its first underscore into the evaluation model and the generation model.
\<close>

definition validate_evaluation_completion :: "json \<Rightarrow> string \<Rightarrow> string list \<Rightarrow> error + bool" where
  "validate_evaluation_completion data method configured_dimensions =
     (if CHR ''_'' \<notin> set method then Inr False
      else
        (let em = takeWhile (\<lambda>c. c \<noteq> CHR ''_'') method;
             gm = drop 1 (dropWhile (\<lambda>c. c \<noteq> CHR ''_'') method)
         in case py_get data ''evaluation'' (JObj []) of
              Inl e \<Rightarrow> Inl e
            | Inr ev \<Rightarrow>
                if \<not> truthy ev then Inr False
                else evaluation_dimensions ev configured_dimensions em gm))"

text \<open>
  The \<^verbatim>\<open>generate\<close> branch of \<^verbatim>\<open>is_stage_completed\<close>, after the test of \<^verbatim>\<open>method\<close>.
\<close>

definition generate_completed :: "filesystem \<Rightarrow> json \<Rightarrow> string \<Rightarrow> error + bool" where
  "generate_completed fs data method =
     (case py_get data ''generation'' (JObj []) of
        Inl e \<Rightarrow> Inl e
      | Inr gen \<Rightarrow>
          (case py_contains gen method of
             Inl e \<Rightarrow> Inl e
           | Inr False \<Rightarrow> Inr False
           | Inr True \<Rightarrow>
               (case py_getitem gen method of
                  Inl e \<Rightarrow> Inl e
                | Inr v \<Rightarrow>
                    if \<not> truthy v then Inr False
                    else
                      (case as_path v of
                         Inl e \<Rightarrow> Inl e
                       | Inr file_path \<Rightarrow> path_exists fs file_path))))"

text \<open>\<^verbatim>\<open>not method\<close> and \<^verbatim>\<open>not configured_dimensions\<close> for the optional arguments.\<close>

definition no_method :: "string option \<Rightarrow> bool" where
  "no_method method = (method = None \<or> method = Some [])"

definition no_dimensions :: "string list option \<Rightarrow> bool" where
  "no_dimensions dims = (dims = None \<or> dims = Some [])"

text \<open>The body of the \<^verbatim>\<open>try\<close> block of \<^verbatim>\<open>is_stage_completed\<close>.\<close>

definition stage_completed_body ::
  "filesystem \<Rightarrow> string \<Rightarrow> string \<Rightarrow> string option \<Rightarrow> string list option \<Rightarrow> error + bool" where
  "stage_completed_body fs item_json stage method configured_dimensions =
     (case json_load fs item_json of
        Inl e \<Rightarrow> Inl e
      | Inr data \<Rightarrow>
          if stage = ''draft'' then
            (case py_get data ''design_space'' (JObj []) of
               Inl e \<Rightarrow> Inl e
             | Inr design_space \<Rightarrow>
                 (case py_get design_space ''t2i_prompt'' (JStr []) of
                    Inl e \<Rightarrow> Inl e
                  | Inr prompt \<Rightarrow> nonblank prompt))
          else if stage = ''generate'' then
            (if no_method method then Inr False
             else generate_completed fs data (the method))
          else if stage = ''generate_questions'' then
            (if no_dimensions configured_dimensions then Inr False
             else validate_questions_completion data (the configured_dimensions))
          else if stage = ''evaluate'' then
            (if no_method method \<or> no_dimensions configured_dimensions then Inr False
             else validate_evaluation_completion data (the method) (the configured_dimensions))
          else Inr False)"

text \<open>
  \<^verbatim>\<open>is_stage_completed(item_id, stage, method, configured_dimensions)\<close>: the test that
  the record file exists, which stands before the \<^verbatim>\<open>try\<close> and so raises what
  \<^verbatim>\<open>exists\<close> raises, then the body under \<^verbatim>\<open>except Exception: return False\<close>.
\<close>

definition is_stage_completed ::
  "filesystem \<Rightarrow> string \<Rightarrow> string \<Rightarrow> string \<Rightarrow> string option \<Rightarrow> string list option
     \<Rightarrow> error + bool" where
  "is_stage_completed fs output_dir iid stage method configured_dimensions =
     (let item_json = truediv (truediv (Path output_dir) iid) (iid @ ''.json'')
      in case path_exists fs item_json of
           Inl e \<Rightarrow> Inl e
         | Inr False \<Rightarrow> Inr False
         | Inr True \<Rightarrow>
             (case stage_completed_body fs (path_str item_json) stage method
                     configured_dimensions of
                Inl e \<Rightarrow> Inr False
              | Inr b \<Rightarrow> Inr b))"

section \<open>File names of generated images (\<^verbatim>\<open>model_resolver.py\<close>, \<^verbatim>\<open>path_resolver.py\<close>)\<close>

text \<open>
  \<^verbatim>\<open>normalize_for_filename\<close>: both replacements, then, when a \<^verbatim>\<open>/\<close> is left,
  element 1 of \<^verbatim>\<open>normalized.split("/")\<close>.
\<close>

definition normalize_for_filename :: "string \<Rightarrow> string" where
  "normalize_for_filename model_name =
     (let normalized = replace_char (CHR ''.'') (CHR ''_'')
                         (replace_char (CHR ''-'') (CHR ''_'') model_name)
      in if CHR ''/'' \<in> set normalized then split_sep (CHR ''/'') normalized ! 1
         else normalized)"

text \<open>\<^verbatim>\<open>build_image_filename\<close> with the default extension, for an \<^verbatim>\<open>id\<close> that is a string.\<close>

definition build_image_filename :: "string \<Rightarrow> string \<Rightarrow> string" where
  "build_image_filename i model_name = i @ ''_'' @ normalize_for_filename model_name @ ''.png''"

text \<open>
  \<^verbatim>\<open>PathResolver.resolve_image_path\<close>: \<^verbatim>\<open>Path(output_dir) / item_id / filename\<close>, where
  \<^verbatim>\<open>/\<close> raises \<^verbatim>\<open>TypeError\<close> on an \<^verbatim>\<open>id\<close> that is not a string.
\<close>

definition resolve_image_path :: "json \<Rightarrow> string \<Rightarrow> string \<Rightarrow> error + path" where
  "resolve_image_path i model_name output_dir =
     (case i of
        JStr s \<Rightarrow>
          Inr (truediv (truediv (Path output_dir) s) (build_image_filename s model_name))
      | _ \<Rightarrow> Inl TypeError)"

section \<open>The drivers (\<^verbatim>\<open>workflow/gen_workflow.py\<close>, \<^verbatim>\<open>workflow/eval_workflow.py\<close>)\<close>

text \<open>
  What a driver changes besides the item it is given: the file store and the number of
  calls made to the external capability. A driver returns the exception it ended with, if
  any, together with the item and the world as they are at that moment, since the item is
  mutated in place and a raise does not undo what was seen before it.

  The capabilities are those of the LLM client, which is not part of the sources: each
  gets the number of calls made before it, so that its answers may vary from call to call,
  and returns a result or raises. The judging capability is given the question the prompt
  is built from; the image capability returns the content \<^verbatim>\<open>image.save\<close> writes.
\<close>

record world =
  files :: filesystem
  calls :: nat

type_synonym image_generation = "nat \<Rightarrow> string \<Rightarrow> json \<Rightarrow> error + file_content"

type_synonym image_understanding = "nat \<Rightarrow> string \<Rightarrow> string \<Rightarrow> json \<Rightarrow> error + json"

record GenWorkflow =
  gw_llm :: image_generation
  gw_model :: string
  gw_output_dir :: string
  gw_resume :: bool

record EvalWorkflow =
  ew_llm :: image_understanding
  ew_eval_model :: string
  ew_output_dir :: string
  ew_resume :: bool

text \<open>\<^verbatim>\<open>GenEngine.text2image\<close>, with the call counter.\<close>

definition text2image ::
  "image_generation \<Rightarrow> string \<Rightarrow> VISItem \<Rightarrow> nat \<Rightarrow> (error + file_content) \<times> nat" where
  "text2image llm model item n =
     (if \<not> truthy (t2i_prompt item) then (Inl ValueError, n)
      else (llm n model (t2i_prompt item), Suc n))"

text \<open>
  The test at the head of \<^verbatim>\<open>GenWorkflow.run\<close>: under resume, the model has a generation
  entry and the file at the stored path exists.
\<close>

definition already_generated :: "GenWorkflow \<Rightarrow> VISItem \<Rightarrow> filesystem \<Rightarrow> error + bool" where
  "already_generated flow item fs =
     (if \<not> gw_resume flow then Inr False
      else
        (case check_generation_exists item (gw_model flow) of
           Inl e \<Rightarrow> Inl e
         | Inr False \<Rightarrow> Inr False
         | Inr True \<Rightarrow>
             (case py_getitem (generation item) (gw_model flow) of
                Inl e \<Rightarrow> Inl e
              | Inr v \<Rightarrow>
                  (case as_path v of
                     Inl e \<Rightarrow> Inl e
                   | Inr existing_path \<Rightarrow> path_exists fs existing_path))))"

text \<open>
  \<^verbatim>\<open>GenWorkflow.run(item)\<close>. The image is written (its directory created first) before
  the record is updated and saved; the save's exception, if any, ends the run.
\<close>

definition GenWorkflow_run ::
  "runtime \<Rightarrow> GenWorkflow \<Rightarrow> VISItem \<Rightarrow> world \<Rightarrow> error option \<times> VISItem \<times> world" where
  "GenWorkflow_run rt flow item w =
     (case already_generated flow item (files w) of
        Inl e \<Rightarrow> (Some e, item, w)
      | Inr True \<Rightarrow> (None, item, w)
      | Inr False \<Rightarrow>
          (case text2image (gw_llm flow) (gw_model flow) item (calls w) of
             (Inl e, n) \<Rightarrow> (Some e, item, w\<lparr>calls := n\<rparr>)
           | (Inr img, n) \<Rightarrow>
               (case resolve_image_path (item_id item) (gw_model flow) (gw_output_dir flow) of
                  Inl e \<Rightarrow> (Some e, item, w\<lparr>calls := n\<rparr>)
                | Inr image_path \<Rightarrow>
                    (case write_file (files w) (path_str image_path) img of
                       Inl e \<Rightarrow> (Some e, item, w\<lparr>calls := n\<rparr>)
                     | Inr fs1 \<Rightarrow>
                         (case update_generation item (gw_model flow) (path_str image_path) of
                            Inl e \<Rightarrow> (Some e, item, \<lparr>files = fs1, calls = n\<rparr>)
                          | Inr item' \<Rightarrow>
                              (case ItemStateManager_save_item rt (gw_output_dir flow) item' fs1 of
                                 (e, fs2) \<Rightarrow> (e, item', \<lparr>files = fs2, calls = n\<rparr>)))))))"

text \<open>\<^verbatim>\<open>EvalEngine.judge_entry\<close>, with the call counter.\<close>

definition judge_entry ::
  "image_understanding \<Rightarrow> EvalEntry \<Rightarrow> string \<Rightarrow> string \<Rightarrow> string \<Rightarrow> nat
     \<Rightarrow> (error + Judgment) \<times> nat" where
  "judge_entry llm e g m image_path n =
     (if \<not> truthy (question e) then (Inl ValueError, n)
      else
        (case llm n m image_path (question e) of
           Inl err \<Rightarrow> (Inl err, Suc n)
         | Inr response \<Rightarrow>
             (case py_get response ''analysis'' (JStr []) of
                Inl err \<Rightarrow> (Inl err, Suc n)
              | Inr a \<Rightarrow>
                  (case py_get response ''answer'' (JStr []) of
                     Inl err \<Rightarrow> (Inl err, Suc n)
                   | Inr b \<Rightarrow>
                       (Inr \<lparr>eval_model = JStr m, gen_model = JStr g,
                             analysis = a, answer = b\<rparr>, Suc n)))))"

text \<open>
  The loop of \<^verbatim>\<open>_evaluate_all\<close>. \<open>seen\<close> holds the elements already visited, as they
  are now, and the second list those still to visit; the item's evaluation list is the
  first followed by the second. An element that is not an \<^verbatim>\<open>EvalEntry\<close> has neither
  \<^verbatim>\<open>has_judgment\<close> nor \<^verbatim>\<open>question\<close>.
\<close>

fun evaluate_entries ::
  "runtime \<Rightarrow> EvalWorkflow \<Rightarrow> string \<Rightarrow> string \<Rightarrow> VISItem \<Rightarrow> eval_elem list \<Rightarrow> eval_elem list
     \<Rightarrow> world \<Rightarrow> error option \<times> VISItem \<times> world" where
  "evaluate_entries rt flow image_path g item seen [] w = (None, item\<lparr>evaluation := seen\<rparr>, w)"
| "evaluate_entries rt flow image_path g item seen (Raw j # todo) w =
     (Some AttributeError, item\<lparr>evaluation := seen @ Raw j # todo\<rparr>, w)"
| "evaluate_entries rt flow image_path g item seen (Entry e # todo) w =
     (if ew_resume flow \<and> has_judgment e g (ew_eval_model flow)
      then evaluate_entries rt flow image_path g item (seen @ [Entry e]) todo w
      else
        (case judge_entry (ew_llm flow) e g (ew_eval_model flow) image_path (calls w) of
           (Inl err, n) \<Rightarrow> (Some err, item\<lparr>evaluation := seen @ Entry e # todo\<rparr>, w\<lparr>calls := n\<rparr>)
         | (Inr j, n) \<Rightarrow>
             (let e' = e\<lparr>judgments := judgments e @ [j]\<rparr>;
                  item' = item\<lparr>evaluation := seen @ Entry e' # todo\<rparr>
              in case ItemStateManager_save_item rt (ew_output_dir flow) item' (files w) of
                   (Some err, fs') \<Rightarrow> (Some err, item', \<lparr>files = fs', calls = n\<rparr>)
                 | (None, fs') \<Rightarrow>
                     evaluate_entries rt flow image_path g item (seen @ [Entry e']) todo
                       \<lparr>files = fs', calls = n\<rparr>)))"

definition evaluate_all ::
  "runtime \<Rightarrow> EvalWorkflow \<Rightarrow> VISItem \<Rightarrow> string \<Rightarrow> string \<Rightarrow> world
     \<Rightarrow> error option \<times> VISItem \<times> world" where
  "evaluate_all rt flow item image_path g w =
     (if evaluation item = [] then (Some ValueError, item, w)
      else evaluate_entries rt flow image_path g item [] (evaluation item) w)"

text \<open>
  \<^verbatim>\<open>EvalWorkflow.run(item, gen_model_name, image_path)\<close>; \<open>None\<close> for the image path is
  the default, resolved from the generation model. The engine's
  \<^verbatim>\<open>check_fully_evaluated\<close> and \<^verbatim>\<open>check_eval_entry_being_judged\<close> only forward to
  \<^verbatim>\<open>check_evaluation_complete\<close> and \<^verbatim>\<open>has_judgment\<close>, which stand for them here and in
  the loop above.
\<close>

definition EvalWorkflow_run ::
  "runtime \<Rightarrow> EvalWorkflow \<Rightarrow> VISItem \<Rightarrow> string \<Rightarrow> string option \<Rightarrow> world
     \<Rightarrow> error option \<times> VISItem \<times> world" where
  "EvalWorkflow_run rt flow item g image_path w =
     (case (case image_path of
              Some p \<Rightarrow> Inr p
            | None \<Rightarrow>
                (case resolve_image_path (item_id item) g (ew_output_dir flow) of
                   Inl e \<Rightarrow> Inl e
                 | Inr p \<Rightarrow> Inr (path_str p))) of
        Inl e \<Rightarrow> (Some e, item, w)
      | Inr p \<Rightarrow>
          (case (if ew_resume flow then check_evaluation_complete item g (ew_eval_model flow)
                 else Inr False) of
             Inl e \<Rightarrow> (Some e, item, w)
           | Inr True \<Rightarrow> (None, item, w)
           | Inr False \<Rightarrow> evaluate_all rt flow item p g w))"

section \<open>Records in the range of loading, and example data\<close>

text \<open>
  What \<^verbatim>\<open>from_dict\<close> can put in an evaluation list: an \<^verbatim>\<open>EvalEntry\<close>, or a raw value
  that is not a dict (a dict is always converted).
\<close>

fun loadable_elem :: "eval_elem \<Rightarrow> bool" where
  "loadable_elem (Entry e) = True"
| "loadable_elem (Raw j) = (\<not> is_dict j)"

text \<open>
  A name that is one component of a path: not empty, not \<^verbatim>\<open>.\<close>, and without \<^verbatim>\<open>/\<close>.
\<close>

definition plain_name :: "string \<Rightarrow> bool" where
  "plain_name s = (s \<noteq> [] \<and> s \<noteq> ''.'' \<and> CHR ''/'' \<notin> set s)"

text \<open>An interpreter that descends 400 levels and writes every string.\<close>

definition example_runtime :: runtime where
  "example_runtime = \<lparr>asdict_depth = 400, encodable = (\<lambda>s. True)\<rparr>"

text \<open>
  The seed record of the scenario in the specification with one question added, the
  item it loads as, a record saved by an earlier run, and a file store holding the seed.
\<close>

definition example_seed :: json where
  "example_seed =
     JObj [(''id'', JStr ''42''), (''t2i_prompt'', JStr ''draw a chart''),
           (''evaluation'', JArr [JObj [(''source'', JStr ''seed''),
                                        (''question'', JStr ''Is there a title?'')]])]"

definition example_saved :: json where
  "example_saved =
     JObj [(''id'', JStr ''42''), (''reference_image_url'', JNull),
           (''t2i_prompt'', JStr ''draw''), (''chart_type'', JNull),
           (''generation'', JObj [(''gemini-2.0'', JStr ''outputs/42/42_gemini_2_0.png'')]),
           (''evaluation'', JArr [])]"

definition example_item :: VISItem where
  "example_item =
     \<lparr>item_id = JStr ''42'', reference_image_url = JNull, t2i_prompt = JStr ''draw a chart'',
      chart_type = JNull, generation = JObj [],
      evaluation = [Entry \<lparr>source = JStr ''seed'', ground = JStr [],
                           question = JStr ''Is there a title?'', question_type = JStr [],
                           judgments = []\<rparr>]\<rparr>"

definition example_files :: filesystem where
  "example_files = (\<lambda>p. None)(''datasets/42.json'' \<mapsto> JsonText example_seed)"

text \<open>
  The normalisation as the specification words it, for comparison with
  \<open>normalize_for_filename\<close>: both replacements, then only the substring after the last
  \<^verbatim>\<open>/\<close>.
\<close>

definition spec_normalize_for_filename :: "string \<Rightarrow> string" where
  "spec_normalize_for_filename model_name =
     (let replaced = replace_char (CHR ''.'') (CHR ''_'')
                       (replace_char (CHR ''-'') (CHR ''_'') model_name)
      in rev (takeWhile (\<lambda>c. c \<noteq> CHR ''/'') (rev replaced)))"

text \<open>A generation driver whose capability always returns an image.\<close>

definition example_gen :: GenWorkflow where
  "example_gen =
     \<lparr>gw_llm = (\<lambda>n model prompt. Inr Blob), gw_model = ''gemini-2.0'',
      gw_output_dir = ''outputs/'', gw_resume = False\<rparr>"

text \<open>
  The record saved by an earlier run together with the image it names; an evaluation
  driver whose capability always answers, and the item it turns \<open>example_item\<close> into.
\<close>

definition example_done_files :: filesystem where
  "example_done_files =
     (\<lambda>p. None)(''outputs/42/42.json'' \<mapsto> JsonText example_saved,
                 ''outputs/42/42_gemini_2_0.png'' \<mapsto> Blob)"

definition example_eval :: EvalWorkflow where
  "example_eval =
     \<lparr>ew_llm = (\<lambda>n model image_path question.
                  Inr (JObj [(''analysis'', JStr ''the title is at the top''),
                             (''answer'', JStr ''1'')])),
      ew_eval_model = ''m2'', ew_output_dir = ''outputs/'', ew_resume = True\<rparr>"

definition example_judged :: VISItem where
  "example_judged =
     example_item\<lparr>evaluation :=
       [Entry \<lparr>source = JStr ''seed'', ground = JStr [],
               question = JStr ''Is there a title?'', question_type = JStr [],
               judgments = [\<lparr>eval_model = JStr ''m2'', gen_model = JStr ''m1'',
                             analysis = JStr ''the title is at the top'',
                             answer = JStr ''1''\<rparr>]\<rparr>]\<rparr>"

section \<open>Growth of a record\<close>

text \<open>
  The keys of a generation map; an element of the evaluation list that is an earlier one
  with judgments appended at the end of its list and nothing else changed; and an item
  that has the keys of an earlier one, and its evaluation elements grown one by one.
\<close>

fun generation_keys :: "json \<Rightarrow> string set" where
  "generation_keys (JObj d) = fst ` set d"
| "generation_keys _ = {}"

fun judgments_appended :: "eval_elem \<Rightarrow> eval_elem \<Rightarrow> bool" where
  "judgments_appended (Entry a) (Entry b) =
     (prefix (judgments a) (judgments b) \<and> b = a\<lparr>judgments := judgments b\<rparr>)"
| "judgments_appended (Raw i) (Raw j) = (i = j)"
| "judgments_appended _ _ = False"

definition only_grows :: "VISItem \<Rightarrow> VISItem \<Rightarrow> bool" where
  "only_grows a b =
     (generation_keys (generation a) \<subseteq> generation_keys (generation b) \<and>
      list_all2 judgments_appended (evaluation a) (evaluation b))"


section \<open>Properties of loading\<close>

lemma from_dict_JObj:
  "fs p = Some (JsonText (JObj d)) \<Longrightarrow> from_dict fs p = VISItem_of_json (JObj d)"
  by (simp add: from_dict_def json_load_def)

text \<open>
  Claim C6. Loading a JSON object fails with \<^verbatim>\<open>KeyError\<close> when the key \<^verbatim>\<open>id\<close> is absent.
  When \<^verbatim>\<open>id\<close> is present and \<^verbatim>\<open>evaluation\<close> is absent the load succeeds and keeps
  the \<^verbatim>\<open>id\<close>; and in every record a load returns, each top-level field whose key is
  absent has its default: \<^verbatim>\<open>None\<close> for the three descriptive strings, the empty dict
  for \<^verbatim>\<open>generation\<close>, the empty list for \<^verbatim>\<open>evaluation\<close>.
\<close>

theorem from_dict_id_required_rest_optional:
  assumes rd: "fs p = Some (JsonText (JObj d))"
  shows "(map_of d ''id'' = None \<longrightarrow> from_dict fs p = Inl KeyError) \<and>
         (\<forall>i. map_of d ''id'' = Some i \<and> map_of d ''evaluation'' = None \<longrightarrow>
            (\<exists>item. from_dict fs p = Inr item \<and> item_id item = i \<and> evaluation item = [])) \<and>
         (\<forall>item. from_dict fs p = Inr item \<longrightarrow>
            (map_of d ''reference_image_url'' = None \<longrightarrow> reference_image_url item = JNull) \<and>
            (map_of d ''t2i_prompt'' = None \<longrightarrow> t2i_prompt item = JNull) \<and>
            (map_of d ''chart_type'' = None \<longrightarrow> chart_type item = JNull) \<and>
            (map_of d ''generation'' = None \<longrightarrow> generation item = JObj []) \<and>
            (map_of d ''evaluation'' = None \<longrightarrow> evaluation item = []))"
proof -
  note eq = from_dict_JObj [of fs p d, OF rd]
  have a: "map_of d ''id'' = None \<longrightarrow> from_dict fs p = Inl KeyError"
    by (simp add: eq VISItem_of_json_def)
  have b: "\<forall>i. map_of d ''id'' = Some i \<and> map_of d ''evaluation'' = None \<longrightarrow>
            (\<exists>item. from_dict fs p = Inr item \<and> item_id item = i \<and> evaluation item = [])"
    by (simp add: eq VISItem_of_json_def)
  have c: "\<forall>item. from_dict fs p = Inr item \<longrightarrow>
            (map_of d ''reference_image_url'' = None \<longrightarrow> reference_image_url item = JNull) \<and>
            (map_of d ''t2i_prompt'' = None \<longrightarrow> t2i_prompt item = JNull) \<and>
            (map_of d ''chart_type'' = None \<longrightarrow> chart_type item = JNull) \<and>
            (map_of d ''generation'' = None \<longrightarrow> generation item = JObj []) \<and>
            (map_of d ''evaluation'' = None \<longrightarrow> evaluation item = [])"
    by (auto simp: eq VISItem_of_json_def dict_get_def split: option.splits sum.splits)
  from a b c show ?thesis by blast
qed

theorem from_dict_id_required_rest_optional_witness:
  "from_dict ((\<lambda>p. None)(''0.json'' \<mapsto> JsonText (JObj [(''id'', JStr ''42'')]))) ''0.json''
     = Inr \<lparr>item_id = JStr ''42'', reference_image_url = JNull, t2i_prompt = JNull,
            chart_type = JNull, generation = JObj [], evaluation = []\<rparr> \<and>
   from_dict ((\<lambda>p. None)(''0.json'' \<mapsto> JsonText (JObj [(''t2i_prompt'', JStr ''x'')]))) ''0.json''
     = Inl KeyError"
proof -
  let ?d = "[(''id'', JStr ''42'')]"
  let ?fs = "(\<lambda>p. None)(''0.json'' \<mapsto> JsonText (JObj ?d))"
  let ?d2 = "[(''t2i_prompt'', JStr ''x'')]"
  let ?fs2 = "(\<lambda>p. None)(''0.json'' \<mapsto> JsonText (JObj ?d2))"
  have f: "?fs ''0.json'' = Some (JsonText (JObj ?d))" by simp
  have f2: "?fs2 ''0.json'' = Some (JsonText (JObj ?d2))" by simp
  from from_dict_id_required_rest_optional [of ?fs "''0.json''" ?d, OF f]
  obtain item where "from_dict ?fs ''0.json'' = Inr item" "item_id item = JStr ''42''"
      "evaluation item = []" "reference_image_url item = JNull" "t2i_prompt item = JNull"
      "chart_type item = JNull" "generation item = JObj []"
    by force
  moreover from from_dict_id_required_rest_optional [of ?fs2 "''0.json''" ?d2, OF f2]
  have "from_dict ?fs2 ''0.json'' = Inl KeyError" by simp
  ultimately show ?thesis by simp
qed

lemma parse_judgments_member:
  "JObj j \<in> set js \<Longrightarrow> judgment_of_dict j \<in> set (parse_judgments js)"
  by (induction js rule: parse_judgments.induct) auto

lemma parse_judgments_dicts: "parse_judgments (map JObj ds) = map judgment_of_dict ds"
  by (induction ds) auto

lemma parse_judgments_append:
  "parse_judgments (xs @ ys) = parse_judgments xs @ parse_judgments ys"
  by (induction xs rule: parse_judgments.induct) auto

text \<open>
  Claim C7. Parsing the judgments of an evaluation entry does not raise on a
  dict-shaped judgment: when the entry's \<^verbatim>\<open>judgments\<close> is a list, \<^verbatim>\<open>EvalEntry.from_dict\<close>
  returns an entry; every dict in the list yields a \<^verbatim>\<open>Judgment\<close> that is in the entry's
  judgments, each of its four fields being the dict's value for the key, or the empty
  string when the key is missing; and a list of dicts only is converted element by
  element, in order.
\<close>

theorem judgment_dicts_parsed_with_defaults:
  assumes "map_of d ''judgments'' = Some (JArr js)"
  shows "\<exists>e. EvalEntry_from_dict d = Inr e \<and> judgments e = parse_judgments js \<and>
           (\<forall>j. JObj j \<in> set js \<longrightarrow>
              judgment_of_dict j \<in> set (judgments e) \<and>
              eval_model (judgment_of_dict j) =
                (case map_of j ''eval_model'' of None \<Rightarrow> JStr [] | Some v \<Rightarrow> v) \<and>
              gen_model (judgment_of_dict j) =
                (case map_of j ''gen_model'' of None \<Rightarrow> JStr [] | Some v \<Rightarrow> v) \<and>
              analysis (judgment_of_dict j) =
                (case map_of j ''analysis'' of None \<Rightarrow> JStr [] | Some v \<Rightarrow> v) \<and>
              answer (judgment_of_dict j) =
                (case map_of j ''answer'' of None \<Rightarrow> JStr [] | Some v \<Rightarrow> v)) \<and>
           (\<forall>ds. js = map JObj ds \<longrightarrow> judgments e = map judgment_of_dict ds)"
proof -
  have "EvalEntry_from_dict d =
          Inr \<lparr>source = dict_get d ''source'' (JStr []), ground = dict_get d ''ground'' (JStr []),
               question = dict_get d ''question'' (JStr []),
               question_type = dict_get d ''question_type'' (JStr []),
               judgments = parse_judgments js\<rparr>"
    using assms by (simp add: EvalEntry_from_dict_def dict_get_def)
  then show ?thesis
    by (simp add: parse_judgments_member parse_judgments_dicts)
       (simp add: judgment_of_dict_def dict_get_def)
qed

theorem judgment_dicts_parsed_with_defaults_witness:
  "EvalEntry_from_dict
     [(''question'', JStr ''Is there a title?''),
      (''judgments'', JArr [JObj [(''gen_model'', JStr ''m1'')], JNum 3,
                            JObj [(''answer'', JStr ''1''), (''eval_model'', JStr ''m2'')]])]
   = Inr \<lparr>source = JStr [], ground = JStr [], question = JStr ''Is there a title?'',
          question_type = JStr [],
          judgments =
            [\<lparr>eval_model = JStr [], gen_model = JStr ''m1'', analysis = JStr [], answer = JStr []\<rparr>,
             \<lparr>eval_model = JStr ''m2'', gen_model = JStr [], analysis = JStr [],
              answer = JStr ''1''\<rparr>]\<rparr>"
proof -
  let ?js = "[JObj [(''gen_model'', JStr ''m1'')], JNum 3,
              JObj [(''answer'', JStr ''1''), (''eval_model'', JStr ''m2'')]]"
  let ?d = "[(''question'', JStr ''Is there a title?''), (''judgments'', JArr ?js)]"
  have h: "map_of ?d ''judgments'' = Some (JArr ?js)" by simp
  from judgment_dicts_parsed_with_defaults [of ?d ?js, OF h]
  obtain e where e: "EvalEntry_from_dict ?d = Inr e" "judgments e = parse_judgments ?js"
    by blast
  then show ?thesis
    by (simp add: EvalEntry_from_dict_def dict_get_def judgment_of_dict_def)
qed

section \<open>Properties of the completion checks\<close>

lemma all_judged_True_iff:
  "all_judged xs g m = Inr True \<longleftrightarrow> (\<forall>x\<in>set xs. \<exists>e. x = Entry e \<and> has_judgment e g m)"
  by (induction xs g m rule: all_judged.induct) auto

lemma all_judged_entries:
  "\<forall>x\<in>set xs. \<exists>e. x = Entry e \<Longrightarrow>
     all_judged xs g m = Inr (\<forall>x\<in>set xs. \<exists>e. x = Entry e \<and> has_judgment e g m)"
  by (induction xs g m rule: all_judged.induct) auto

lemma has_judgment_iff:
  "has_judgment e g m \<longleftrightarrow> (\<exists>j\<in>set (judgments e). gen_model j = JStr g \<and> eval_model j = JStr m)"
  by (simp add: has_judgment_def list_ex_iff)

text \<open>
  Claim C2. \<^verbatim>\<open>check_evaluation_complete\<close> returns \<^verbatim>\<open>True\<close> exactly when the
  evaluation list is not empty and every element of it is an entry holding a judgment
  whose \<^verbatim>\<open>gen_model\<close> and \<^verbatim>\<open>eval_model\<close> are the two requested strings; on an empty
  list it returns \<^verbatim>\<open>False\<close> for every pair of models; and on a list of entries (the
  declared type) it returns, without raising, the truth value of that condition.
\<close>

theorem check_evaluation_complete_iff:
  "(check_evaluation_complete item g m = Inr True \<longleftrightarrow>
      evaluation item \<noteq> [] \<and>
      (\<forall>x\<in>set (evaluation item). \<exists>e. x = Entry e \<and>
         (\<exists>j\<in>set (judgments e). gen_model j = JStr g \<and> eval_model j = JStr m))) \<and>
   (evaluation item = [] \<longrightarrow> check_evaluation_complete item g m = Inr False) \<and>
   ((\<forall>x\<in>set (evaluation item). \<exists>e. x = Entry e) \<longrightarrow>
      check_evaluation_complete item g m =
        Inr (evaluation item \<noteq> [] \<and>
             (\<forall>x\<in>set (evaluation item). \<exists>e. x = Entry e \<and>
                (\<exists>j\<in>set (judgments e). gen_model j = JStr g \<and> eval_model j = JStr m))))"
proof -
  have a: "check_evaluation_complete item g m = Inr True \<longleftrightarrow>
      evaluation item \<noteq> [] \<and>
      (\<forall>x\<in>set (evaluation item). \<exists>e. x = Entry e \<and>
         (\<exists>j\<in>set (judgments e). gen_model j = JStr g \<and> eval_model j = JStr m))"
    by (simp add: check_evaluation_complete_def all_judged_True_iff has_judgment_iff)
  have b: "evaluation item = [] \<longrightarrow> check_evaluation_complete item g m = Inr False"
    by (simp add: check_evaluation_complete_def)
  have c: "(\<forall>x\<in>set (evaluation item). \<exists>e. x = Entry e) \<longrightarrow>
      check_evaluation_complete item g m =
        Inr (evaluation item \<noteq> [] \<and>
             (\<forall>x\<in>set (evaluation item). \<exists>e. x = Entry e \<and>
                (\<exists>j\<in>set (judgments e). gen_model j = JStr g \<and> eval_model j = JStr m)))"
    by (simp add: check_evaluation_complete_def all_judged_entries has_judgment_iff)
  from a b c show ?thesis by blast
qed

theorem check_evaluation_complete_iff_witness:
  "check_evaluation_complete
     \<lparr>item_id = JStr ''42'', reference_image_url = JNull, t2i_prompt = JNull, chart_type = JNull,
      generation = JObj [],
      evaluation = [Entry \<lparr>source = JStr ''seed'', ground = JStr [], question = JStr ''q'',
                           question_type = JStr [],
                           judgments = [\<lparr>eval_model = JStr ''m2'', gen_model = JStr ''m1'',
                                         analysis = JStr [], answer = JStr ''1''\<rparr>]\<rparr>]\<rparr>
     ''m1'' ''m2'' = Inr True \<and>
   check_evaluation_complete
     \<lparr>item_id = JStr ''42'', reference_image_url = JNull, t2i_prompt = JNull, chart_type = JNull,
      generation = JObj [],
      evaluation = [Entry \<lparr>source = JStr ''seed'', ground = JStr [], question = JStr ''q'',
                           question_type = JStr [],
                           judgments = [\<lparr>eval_model = JStr ''m2'', gen_model = JStr ''m1'',
                                         analysis = JStr [], answer = JStr ''1''\<rparr>]\<rparr>]\<rparr>
     ''M1'' ''m2'' = Inr False \<and>
   check_evaluation_complete
     \<lparr>item_id = JStr ''42'', reference_image_url = JNull, t2i_prompt = JNull, chart_type = JNull,
      generation = JObj [], evaluation = []\<rparr>
     ''m1'' ''m2'' = Inr False"
proof -
  let ?e = "\<lparr>source = JStr ''seed'', ground = JStr [], question = JStr ''q'',
             question_type = JStr [],
             judgments = [\<lparr>eval_model = JStr ''m2'', gen_model = JStr ''m1'',
                           analysis = JStr [], answer = JStr ''1''\<rparr>]\<rparr>"
  let ?item = "\<lparr>item_id = JStr ''42'', reference_image_url = JNull, t2i_prompt = JNull,
                chart_type = JNull, generation = JObj [], evaluation = [Entry ?e]\<rparr>"
  let ?empty = "\<lparr>item_id = JStr ''42'', reference_image_url = JNull, t2i_prompt = JNull,
                 chart_type = JNull, generation = JObj [], evaluation = []\<rparr>"
  have typed: "\<forall>x\<in>set (evaluation ?item). \<exists>e. x = Entry e" by simp
  have none: "evaluation ?empty = []" by simp
  have "check_evaluation_complete ?item ''m1'' ''m2'' = Inr True"
    using check_evaluation_complete_iff [of ?item "''m1''" "''m2''"] typed by simp
  moreover have "check_evaluation_complete ?item ''M1'' ''m2'' = Inr False"
    using check_evaluation_complete_iff [of ?item "''M1''" "''m2''"] typed by simp
  moreover have "check_evaluation_complete ?empty ''m1'' ''m2'' = Inr False"
    using check_evaluation_complete_iff [of ?empty "''m1''" "''m2''"] none by blast
  ultimately show ?thesis by blast
qed

section \<open>Properties of strings and paths\<close>

lemma split_sep_nonempty: "split_sep c s \<noteq> []"
  by (induction s) (auto split: list.splits)

lemma split_sep_no_sep: "c \<notin> set a \<Longrightarrow> split_sep c a = [a]"
  by (induction a) auto

lemma split_sep_first: "c \<notin> set a \<Longrightarrow> split_sep c (a @ c # b) = a # split_sep c b"
  by (induction a) auto

lemma split_sep_length: "c \<in> set s \<Longrightarrow> 2 \<le> length (split_sep c s)"
  by (induction s) (auto simp: split_sep_nonempty Suc_le_eq split: list.splits)

lemma join_parts_snoc: "ps \<noteq> [] \<Longrightarrow> join_parts (ps @ [a]) = join_parts ps @ ''/'' @ a"
  by (induction ps rule: join_parts.induct) auto

lemma plain_name_json: "plain_name X \<Longrightarrow> plain_name (X @ ''.json'')"
proof -
  assume "plain_name X"
  moreover have "length (X @ ''.json'') \<noteq> length ''.''" by simp
  then have "X @ ''.json'' \<noteq> ''.''" by metis
  ultimately show ?thesis by (simp add: plain_name_def)
qed

lemma truediv_plain:
  assumes "plain_name s"
  shows "truediv p s = PosixPath (anchored p) (parts p @ [s])"
proof -
  from assms have "\<not> startswith_sep s"
    by (cases s) (auto simp: startswith_sep_def plain_name_def)
  moreover from assms have "split_sep (CHR ''/'') s = [s]"
    by (simp add: plain_name_def split_sep_no_sep)
  ultimately show ?thesis using assms by (simp add: truediv_def Path_def plain_name_def)
qed

lemma path_str_snoc:
  "parts p \<noteq> [] \<Longrightarrow> path_str (PosixPath (anchored p) (parts p @ [s])) = path_str p @ ''/'' @ s"
  by (simp add: path_str_def join_parts_snoc)

text \<open>
  Under a root with at least one component, the record of a plain \<^verbatim>\<open>id\<close> is at the root,
  the \<^verbatim>\<open>id\<close> and the file name joined by \<^verbatim>\<open>/\<close>.
\<close>

lemma item_json_path_plain:
  assumes "plain_name X" and "parts (Path output_dir) \<noteq> []"
  shows "path_str (truediv (truediv (Path output_dir) X) (X @ ''.json'')) =
           path_str (Path output_dir) @ ''/'' @ X @ ''/'' @ X @ ''.json''"
proof -
  let ?d = "truediv (Path output_dir) X"
  have d: "?d = PosixPath (anchored (Path output_dir)) (parts (Path output_dir) @ [X])"
    using assms(1) by (rule truediv_plain)
  then have pd: "parts ?d \<noteq> []" and sd: "path_str ?d = path_str (Path output_dir) @ ''/'' @ X"
    using assms(2) by (simp_all add: path_str_snoc)
  have "truediv ?d (X @ ''.json'') = PosixPath (anchored ?d) (parts ?d @ [X @ ''.json''])"
    using assms(1) by (intro truediv_plain plain_name_json)
  then have "path_str (truediv ?d (X @ ''.json'')) = path_str ?d @ ''/'' @ X @ ''.json''"
    using pd by (simp add: path_str_snoc)
  with sd show ?thesis by simp
qed

section \<open>Properties of the state store\<close>

text \<open>
  Claim C1. (amended) For a seed record whose \<^verbatim>\<open>id\<close> is a plain name \<open>X\<close> and an
  output root with at least one component, the record file is named by the root, \<open>X\<close>
  and \<open>X\<close> followed by \<^verbatim>\<open>.json\<close>, joined by \<^verbatim>\<open>/\<close>. Without resume \<^verbatim>\<open>load_item\<close>
  returns the seed. With resume it returns the seed when nothing exists at that name, and
  when a JSON file is there it returns what that file alone parses to, with nothing taken
  from the seed. Where the file system refuses to look the name up, it raises.
\<close>

theorem load_item_resume_precedence:
  assumes "from_dict fs source_path = Inr seed" and "item_id seed = JStr X"
    and "plain_name X" and "parts (Path output_dir) \<noteq> []"
  shows "load_item fs output_dir source_path False = Inr seed \<and>
         (fs (path_str (Path output_dir) @ ''/'' @ X @ ''/'' @ X @ ''.json'') = None \<longrightarrow>
            load_item fs output_dir source_path True = Inr seed) \<and>
         (\<forall>v. fs (path_str (Path output_dir) @ ''/'' @ X @ ''/'' @ X @ ''.json'') =
                Some (JsonText v) \<longrightarrow>
            load_item fs output_dir source_path True = VISItem_of_json v) \<and>
         (fs (path_str (Path output_dir) @ ''/'' @ X @ ''/'' @ X @ ''.json'') = Some NoStat \<longrightarrow>
            load_item fs output_dir source_path True = Inl OSError)"
proof -
  let ?J = "path_str (Path output_dir) @ ''/'' @ X @ ''/'' @ X @ ''.json''"
  have p: "item_json_path output_dir (item_id seed) =
             Inr (truediv (truediv (Path output_dir) X) (X @ ''.json''))"
    using assms(2) by (simp add: item_json_path_def)
  note j = item_json_path_plain [OF assms(3,4)]
  have a: "load_item fs output_dir source_path False = Inr seed"
    using assms(1) by (simp add: load_item_def)
  have b: "load_item fs output_dir source_path True = Inr seed" if "fs ?J = None"
    using that assms(1) by (simp add: load_item_def p path_exists_def j)
  have c: "load_item fs output_dir source_path True = VISItem_of_json v"
    if "fs ?J = Some (JsonText v)" for v
    using that assms(1) by (simp add: load_item_def p path_exists_def j from_dict_def json_load_def)
  have d: "load_item fs output_dir source_path True = Inl OSError" if "fs ?J = Some NoStat"
    using that assms(1) by (simp add: load_item_def p path_exists_def j)
  from a b c d show ?thesis by blast
qed

lemma example_load: "from_dict example_files ''datasets/42.json'' = Inr example_item"
  by (simp add: example_files_def example_seed_def example_item_def from_dict_def json_load_def
        VISItem_of_json_def EvalEntry_from_dict_def dict_get_def)

lemma example_root: "path_str (Path ''outputs/'') = ''outputs''" "parts (Path ''outputs/'') \<noteq> []"
  by (simp_all add: path_str_def Path_def startswith_sep_def)

theorem load_item_resume_precedence_witness:
  "load_item (example_files(''outputs/42/42.json'' \<mapsto> JsonText example_saved))
     ''outputs/'' ''datasets/42.json'' True =
     Inr \<lparr>item_id = JStr ''42'', reference_image_url = JNull, t2i_prompt = JStr ''draw'',
           chart_type = JNull,
           generation = JObj [(''gemini-2.0'', JStr ''outputs/42/42_gemini_2_0.png'')],
           evaluation = []\<rparr> \<and>
   load_item example_files ''outputs/'' ''datasets/42.json'' True = Inr example_item \<and>
   load_item (example_files(''outputs/42/42.json'' \<mapsto> JsonText example_saved))
     ''outputs/'' ''datasets/42.json'' False = Inr example_item"
proof -
  let ?fs = "example_files(''outputs/42/42.json'' \<mapsto> JsonText example_saved)"
  have seed: "from_dict ?fs ''datasets/42.json'' = Inr example_item"
    using example_load by (simp add: from_dict_def json_load_def example_files_def)
  have i: "item_id example_item = JStr ''42''" by (simp add: example_item_def)
  have n: "plain_name ''42''" by (simp add: plain_name_def)
  have saved: "VISItem_of_json example_saved =
      Inr \<lparr>item_id = JStr ''42'', reference_image_url = JNull, t2i_prompt = JStr ''draw'',
           chart_type = JNull,
           generation = JObj [(''gemini-2.0'', JStr ''outputs/42/42_gemini_2_0.png'')],
           evaluation = []\<rparr>"
    by (simp add: example_saved_def VISItem_of_json_def dict_get_def)
  have there: "?fs (path_str (Path ''outputs/'') @ ''/'' @ ''42'' @ ''/'' @ ''42'' @ ''.json'') =
                 Some (JsonText example_saved)"
    by (simp add: example_root)
  have absent: "example_files (path_str (Path ''outputs/'') @ ''/'' @ ''42'' @ ''/'' @ ''42'' @ ''.json'')
                  = None"
    by (simp add: example_root example_files_def)
  note t1 = load_item_resume_precedence [where fs = ?fs and output_dir = "''outputs/''",
              OF seed i n example_root(2)]
  note t2 = load_item_resume_precedence [where fs = example_files and output_dir = "''outputs/''",
              OF example_load i n example_root(2)]
  from t1 there saved
  have a: "load_item ?fs ''outputs/'' ''datasets/42.json'' True =
      Inr \<lparr>item_id = JStr ''42'', reference_image_url = JNull, t2i_prompt = JStr ''draw'',
           chart_type = JNull,
           generation = JObj [(''gemini-2.0'', JStr ''outputs/42/42_gemini_2_0.png'')],
           evaluation = []\<rparr>"
    by simp
  from t1 have c: "load_item ?fs ''outputs/'' ''datasets/42.json'' False = Inr example_item"
    by blast
  from t2 absent
  have b: "load_item example_files ''outputs/'' ''datasets/42.json'' True = Inr example_item"
    by blast
  from a b c show ?thesis by blast
qed

lemma long_name: "plain_name (replicate 256 (CHR ''a''))"
proof -
  have "length (replicate 256 (CHR ''a'')) \<noteq> length ([] :: string)"
    and "length (replicate 256 (CHR ''a'')) \<noteq> length ''.''" by simp_all
  then have "replicate 256 (CHR ''a'') \<noteq> [] \<and> replicate 256 (CHR ''a'') \<noteq> ''.''" by metis
  then show ?thesis by (simp add: plain_name_def)
qed

lemma long_record_path:
  "path_str (truediv (truediv (Path ''outputs/'') (replicate 256 (CHR ''a'')))
              (replicate 256 (CHR ''a'') @ ''.json'')) =
     ''outputs/'' @ replicate 256 (CHR ''a'') @ ''/'' @ replicate 256 (CHR ''a'') @ ''.json''"
  using item_json_path_plain [OF long_name example_root(2)] by (simp add: example_root)

lemma long_record_path_refused:
  "name_too_long (''outputs/'' @ replicate 256 (CHR ''a'') @ ''/'' @ replicate 256 (CHR ''a'')
                   @ ''.json'')"
proof -
  let ?X = "replicate 256 (CHR ''a'')"
  have a: "CHR ''/'' \<notin> set ''outputs''" and b: "CHR ''/'' \<notin> set ?X"
    and c: "CHR ''/'' \<notin> set (?X @ ''.json'')"
    by simp_all
  have "split_sep (CHR ''/'') (''outputs'' @ CHR ''/'' # (?X @ CHR ''/'' # (?X @ ''.json''))) =
          [''outputs'', ?X, ?X @ ''.json'']"
    unfolding split_sep_first [OF a] split_sep_first [OF b] split_sep_no_sep [OF c] ..
  then have "list_ex (\<lambda>c. 255 < length c)
               (split_sep (CHR ''/'') (''outputs'' @ CHR ''/'' # (?X @ CHR ''/'' # (?X @ ''.json''))))"
    by simp
  then show ?thesis by (simp add: name_too_long_def)
qed

lemma long_record_no_stat:
  "(no_files(''datasets/long.json'' \<mapsto> c))
     (path_str (truediv (truediv (Path ''outputs/'') (replicate 256 (CHR ''a'')))
                 (replicate 256 (CHR ''a'') @ ''.json''))) = Some NoStat"
proof -
  have "no_files (''outputs/'' @ replicate 256 (CHR ''a'') @ ''/'' @ replicate 256 (CHR ''a'')
                   @ ''.json'') = Some NoStat"
    using long_record_path_refused by (simp only: no_files_def if_True)
  then show ?thesis unfolding long_record_path by simp
qed

text \<open>
  An \<^verbatim>\<open>id\<close> of 256 characters, in an output directory that exists: there is no record
  file, and the existence test raises instead of letting the seed be returned. An
  \<^verbatim>\<open>id\<close> that starts with \<^verbatim>\<open>/\<close>: the join restarts at the root, and the file read is
  \<^verbatim>\<open>/r.json\<close>, outside the output directory, where nothing exists.
\<close>

theorem load_item_resume_counterexample:
  "from_dict (no_files(''datasets/long.json'' \<mapsto>
                 JsonText (JObj [(''id'', JStr (replicate 256 (CHR ''a'')))])))
     ''datasets/long.json'' =
     Inr \<lparr>item_id = JStr (replicate 256 (CHR ''a'')), reference_image_url = JNull,
           t2i_prompt = JNull, chart_type = JNull, generation = JObj [], evaluation = []\<rparr> \<and>
   load_item (no_files(''datasets/long.json'' \<mapsto>
                 JsonText (JObj [(''id'', JStr (replicate 256 (CHR ''a'')))])))
     ''outputs/'' ''datasets/long.json'' True = Inl OSError \<and>
   load_item ((\<lambda>p. None)(''datasets/r.json'' \<mapsto>
                  JsonText (JObj [(''id'', JStr ''/r''), (''t2i_prompt'', JStr ''new'')]),
                ''/r.json'' \<mapsto>
                  JsonText (JObj [(''id'', JStr ''/r''), (''t2i_prompt'', JStr ''other'')])))
     ''outputs/'' ''datasets/r.json'' True =
     Inr \<lparr>item_id = JStr ''/r'', reference_image_url = JNull, t2i_prompt = JStr ''other'',
           chart_type = JNull, generation = JObj [], evaluation = []\<rparr>"
proof -
  let ?X = "replicate 256 (CHR ''a'')"
  let ?fs = "no_files(''datasets/long.json'' \<mapsto> JsonText (JObj [(''id'', JStr ?X)]))"
  have a: "from_dict ?fs ''datasets/long.json'' =
     Inr \<lparr>item_id = JStr ?X, reference_image_url = JNull,
           t2i_prompt = JNull, chart_type = JNull, generation = JObj [], evaluation = []\<rparr>"
    by (simp add: from_dict_def json_load_def VISItem_of_json_def dict_get_def)
  have "path_exists ?fs (truediv (truediv (Path ''outputs/'') ?X) (?X @ ''.json'')) = Inl OSError"
    unfolding path_exists_def long_record_no_stat by simp
  then have b: "load_item ?fs ''outputs/'' ''datasets/long.json'' True = Inl OSError"
    by (simp add: load_item_def a item_json_path_def)
  have p: "path_str (truediv (truediv (Path ''outputs/'') ''/r'') ''/r.json'') = ''/r.json''"
    by (simp add: path_str_def truediv_def Path_def startswith_sep_def)
  have c: "load_item ((\<lambda>p. None)(''datasets/r.json'' \<mapsto>
                  JsonText (JObj [(''id'', JStr ''/r''), (''t2i_prompt'', JStr ''new'')]),
                ''/r.json'' \<mapsto>
                  JsonText (JObj [(''id'', JStr ''/r''), (''t2i_prompt'', JStr ''other'')])))
     ''outputs/'' ''datasets/r.json'' True =
     Inr \<lparr>item_id = JStr ''/r'', reference_image_url = JNull, t2i_prompt = JStr ''other'',
           chart_type = JNull, generation = JObj [], evaluation = []\<rparr>"
    by (simp add: load_item_def from_dict_def json_load_def VISItem_of_json_def dict_get_def
          item_json_path_def path_exists_def p)
  from a b c show ?thesis by blast
qed

subsection \<open>Saving and loading again\<close>

lemma judgment_of_dict_asdict:
  "judgment_of_dict [(''eval_model'', eval_model j), (''gen_model'', gen_model j),
                     (''analysis'', analysis j), (''answer'', answer j)] = j"
  by (simp add: judgment_of_dict_def dict_get_def)

lemma parse_judgments_asdict: "parse_judgments (map Judgment_asdict js) = js"
  by (induction js) (simp_all add: Judgment_asdict_def judgment_of_dict_asdict)

lemma parse_entry_asdict: "loadable_elem x \<Longrightarrow> parse_entry (eval_elem_asdict x) = Inr x"
proof (cases x)
  case (Entry e)
  then show ?thesis
    by (simp add: EvalEntry_asdict_def EvalEntry_from_dict_def dict_get_def parse_judgments_asdict)
next
  case (Raw j)
  assume "loadable_elem x"
  with Raw show ?thesis by (cases j) simp_all
qed

lemma parse_entries_asdict:
  "list_all loadable_elem xs \<Longrightarrow> parse_entries (map eval_elem_asdict xs) = Inr xs"
  by (induction xs) (simp_all add: parse_entry_asdict)

lemma VISItem_of_json_asdict:
  "list_all loadable_elem (evaluation item) \<Longrightarrow> VISItem_of_json (asdict item) = Inr item"
  by (simp add: VISItem_of_json_def asdict_def dict_get_def parse_entries_asdict)

lemma parse_entry_loadable: "parse_entry j = Inr x \<Longrightarrow> loadable_elem x"
  by (cases j) (auto split: sum.splits option.splits)

lemma parse_entries_loadable: "parse_entries js = Inr xs \<Longrightarrow> list_all loadable_elem xs"
  by (induction js arbitrary: xs) (auto split: sum.splits dest: parse_entry_loadable)

lemma VISItem_of_json_loadable:
  "VISItem_of_json v = Inr item \<Longrightarrow> list_all loadable_elem (evaluation item)"
  by (auto simp: VISItem_of_json_def split: json.splits option.splits sum.splits
           dest: parse_entries_loadable)

lemma from_dict_loadable:
  "from_dict fs p = Inr item \<Longrightarrow> list_all loadable_elem (evaluation item)"
  by (cases "json_load fs p") (auto simp: from_dict_def dest: VISItem_of_json_loadable)

lemma from_dict_written:
  "list_all loadable_elem (evaluation item) \<Longrightarrow>
     from_dict (fs(p \<mapsto> JsonText (asdict item))) p = Inr item"
  by (simp add: from_dict_def json_load_def VISItem_of_json_asdict)

lemma save_item_written:
  assumes "save_item rt item output_path fs = (None, fs')"
  shows "\<exists>save_path. resolve_save_path item output_path = Inr save_path \<and>
           fs' = fs(save_path \<mapsto> JsonText (asdict item))"
  using assms
  by (auto simp: save_item_def asdict_checked_def open_w_def json_dump_def
           split: sum.splits option.splits if_splits)

text \<open>
  How a save fails once its path is resolved and can be opened: before the file is
  touched when the record is nested too deep for \<^verbatim>\<open>asdict\<close>, and with the file left cut
  short, so that it no longer loads, when a string cannot be encoded.
\<close>

lemma save_item_raises:
  assumes "resolve_save_path item output_path = Inr sp" and "os_path_dirname sp \<noteq> []"
    and "fs sp \<noteq> Some NoStat"
  shows "asdict_depth rt < depth (asdict item) \<Longrightarrow>
           save_item rt item output_path fs = (Some RecursionError, fs)"
    and "\<not> asdict_depth rt < depth (asdict item) \<Longrightarrow>
         \<not> all_strings (encodable rt) (asdict item) \<Longrightarrow>
           save_item rt item output_path fs = (Some UnicodeEncodeError, fs(sp \<mapsto> Blob)) \<and>
           from_dict (fs(sp \<mapsto> Blob)) sp = Inl JSONDecodeError"
  using assms
  by (simp_all add: save_item_def os_makedirs_def asdict_checked_def open_w_def json_dump_def
        from_dict_def json_load_def)

text \<open>
  Claim C4. (amended) The records \<^verbatim>\<open>from_dict\<close> returns are exactly those
  whose evaluation elements are entries or raw values that are not dicts. Whenever
  \<^verbatim>\<open>save_item\<close> writes such a record without raising, the file at the path it resolved
  holds the record's \<^verbatim>\<open>asdict\<close>, and \<^verbatim>\<open>from_dict\<close> reads it back as the same record:
  equal in \<^verbatim>\<open>id\<close>, the three descriptive fields, the generation map and the evaluation
  list with every entry's fields and judgments in order.
\<close>

theorem save_then_load_roundtrip:
  "((\<exists>fs0 p0. from_dict fs0 p0 = Inr item) \<longleftrightarrow> list_all loadable_elem (evaluation item)) \<and>
   (\<forall>fs'. list_all loadable_elem (evaluation item) \<and>
           save_item rt item output_path fs = (None, fs') \<longrightarrow>
      (\<exists>save_path. resolve_save_path item output_path = Inr save_path \<and>
         fs' save_path = Some (JsonText (asdict item)) \<and>
         from_dict fs' save_path = Inr item))"
proof -
  have a: "(\<exists>fs0 p0. from_dict fs0 p0 = Inr item) \<longleftrightarrow> list_all loadable_elem (evaluation item)"
  proof
    assume "\<exists>fs0 p0. from_dict fs0 p0 = Inr item"
    then show "list_all loadable_elem (evaluation item)"
      by (auto dest: from_dict_loadable)
  next
    assume "list_all loadable_elem (evaluation item)"
    then have "from_dict ((\<lambda>p. None)([] \<mapsto> JsonText (asdict item))) [] = Inr item"
      by (rule from_dict_written)
    then show "\<exists>fs0 p0. from_dict fs0 p0 = Inr item" by blast
  qed
  have b: "\<exists>save_path. resolve_save_path item output_path = Inr save_path \<and>
         fs' save_path = Some (JsonText (asdict item)) \<and>
         from_dict fs' save_path = Inr item"
    if l: "list_all loadable_elem (evaluation item)"
      and s: "save_item rt item output_path fs = (None, fs')" for fs'
  proof -
    from save_item_written [OF s] obtain save_path where
      sp: "resolve_save_path item output_path = Inr save_path" and
      fs': "fs' = fs(save_path \<mapsto> JsonText (asdict item))"
      by blast
    from l have "from_dict fs' save_path = Inr item"
      unfolding fs' by (rule from_dict_written)
    with sp fs' show ?thesis by simp
  qed
  from a b show ?thesis by blast
qed

lemma example_judged_asdict:
  "asdict example_judged =
     JObj [(''id'', JStr ''42''), (''reference_image_url'', JNull),
           (''t2i_prompt'', JStr ''draw a chart''), (''chart_type'', JNull),
           (''generation'', JObj []),
           (''evaluation'',
            JArr [JObj [(''source'', JStr ''seed''), (''ground'', JStr []),
                        (''question'', JStr ''Is there a title?''), (''question_type'', JStr []),
                        (''judgments'',
                         JArr [JObj [(''eval_model'', JStr ''m2''), (''gen_model'', JStr ''m1''),
                                     (''analysis'', JStr ''the title is at the top''),
                                     (''answer'', JStr ''1'')]])]])]"
  by (simp add: asdict_def example_judged_def example_item_def EvalEntry_asdict_def
        Judgment_asdict_def)

lemma example_judged_save:
  "save_item example_runtime example_judged ''outputs/'' example_files =
     (None, example_files(''outputs/42/42.json'' \<mapsto> JsonText (asdict example_judged)))"
proof -
  have p: "resolve_save_path example_judged ''outputs/'' = Inr ''outputs/42/42.json''"
    by (simp add: resolve_save_path_def build_save_path_def example_judged_def example_item_def
          endswith_def os_path_join_def os_path_join_step_def startswith_sep_def)
  have d: "os_path_dirname ''outputs/42/42.json'' = ''outputs/42''"
    by (simp add: os_path_dirname_def)
  have a: "asdict_checked example_runtime example_judged = Inr (asdict example_judged)"
    by (simp add: asdict_checked_def example_runtime_def example_judged_asdict)
  have o: "open_w example_files ''outputs/42/42.json'' =
             Inr (example_files(''outputs/42/42.json'' \<mapsto> Blob))"
    by (simp add: open_w_def example_files_def)
  have j: "all_strings (encodable example_runtime) (asdict example_judged)"
    by (simp add: example_runtime_def example_judged_asdict)
  show ?thesis
    by (simp add: save_item_def p d os_makedirs_def a o json_dump_def j)
qed

theorem save_then_load_roundtrip_witness:
  "save_item example_runtime example_judged ''outputs/'' example_files =
     (None, example_files(''outputs/42/42.json'' \<mapsto> JsonText (asdict example_judged))) \<and>
   from_dict (example_files(''outputs/42/42.json'' \<mapsto> JsonText (asdict example_judged)))
     ''outputs/42/42.json'' = Inr example_judged \<and>
   evaluation example_judged =
     [Entry \<lparr>source = JStr ''seed'', ground = JStr [], question = JStr ''Is there a title?'',
             question_type = JStr [],
             judgments = [\<lparr>eval_model = JStr ''m2'', gen_model = JStr ''m1'',
                           analysis = JStr ''the title is at the top'',
                           answer = JStr ''1''\<rparr>]\<rparr>]"
proof -
  let ?fs' = "example_files(''outputs/42/42.json'' \<mapsto> JsonText (asdict example_judged))"
  have l: "list_all loadable_elem (evaluation example_judged)"
    by (simp add: example_judged_def)
  have p: "resolve_save_path example_judged ''outputs/'' = Inr ''outputs/42/42.json''"
    by (simp add: resolve_save_path_def build_save_path_def example_judged_def example_item_def
          endswith_def os_path_join_def os_path_join_step_def startswith_sep_def)
  from save_then_load_roundtrip [where item = example_judged and rt = example_runtime
         and output_path = "''outputs/''" and fs = example_files] l example_judged_save p
  have "from_dict ?fs' ''outputs/42/42.json'' = Inr example_judged" by auto
  with example_judged_save show ?thesis by (simp add: example_judged_def)
qed

text \<open>
  A record that loads and cannot be saved: its \<^verbatim>\<open>id\<close> is a number, which no check of
  \<^verbatim>\<open>from_dict\<close> refuses, and \<^verbatim>\<open>os.path.join\<close> raises on it.
\<close>

theorem save_then_load_numeric_id_counterexample:
  "from_dict ((\<lambda>p. None)(''datasets/n.json'' \<mapsto> JsonText (JObj [(''id'', JNum 42)])))
     ''datasets/n.json'' =
     Inr \<lparr>item_id = JNum 42, reference_image_url = JNull, t2i_prompt = JNull,
           chart_type = JNull, generation = JObj [], evaluation = []\<rparr> \<and>
   save_item example_runtime
     \<lparr>item_id = JNum 42, reference_image_url = JNull, t2i_prompt = JNull,
      chart_type = JNull, generation = JObj [], evaluation = []\<rparr>
     ''outputs/'' ((\<lambda>p. None)(''datasets/n.json'' \<mapsto> JsonText (JObj [(''id'', JNum 42)]))) =
     (Some TypeError, (\<lambda>p. None)(''datasets/n.json'' \<mapsto> JsonText (JObj [(''id'', JNum 42)])))"
  by (simp add: from_dict_def json_load_def VISItem_of_json_def dict_get_def save_item_def
        resolve_save_path_def build_save_path_def endswith_def)

section \<open>Properties of the image path\<close>

lemma takeWhile_no_sep: "c \<notin> set b \<Longrightarrow> takeWhile (\<lambda>x. x \<noteq> c) b = b"
  by (induction b) auto

lemma takeWhile_until: "c \<notin> set b \<Longrightarrow> takeWhile (\<lambda>x. x \<noteq> c) (b @ c # a) = b"
  by (induction b) auto

lemma after_last_no_sep: "c \<notin> set b \<Longrightarrow> rev (takeWhile (\<lambda>x. x \<noteq> c) (rev b)) = b"
  by (simp add: takeWhile_no_sep)

lemma after_only_sep:
  assumes "c \<notin> set a" "c \<notin> set b"
  shows "split_sep c (a @ c # b) ! 1 = b" and
        "rev (takeWhile (\<lambda>x. x \<noteq> c) (rev (a @ c # b))) = b"
proof -
  show "split_sep c (a @ c # b) ! 1 = b"
    using assms by (simp add: split_sep_first split_sep_no_sep)
  have "takeWhile (\<lambda>x. x \<noteq> c) (rev b @ c # rev a) = rev b"
    using assms(2) by (simp add: takeWhile_until)
  then show "rev (takeWhile (\<lambda>x. x \<noteq> c) (rev (a @ c # b))) = b" by simp
qed

lemma one_sep_split:
  assumes "c \<in> set s" and "length (filter (\<lambda>x. x = c) s) \<le> 1"
  shows "\<exists>a b. s = a @ c # b \<and> c \<notin> set a \<and> c \<notin> set b"
proof -
  from split_list_first [OF assms(1)] obtain a b where s: "s = a @ c # b" and a: "c \<notin> set a"
    by blast
  from assms(2) s have "filter (\<lambda>x. x = c) b = []" by simp
  then have "c \<notin> set b" by (auto simp: filter_empty_conv)
  with s a show ?thesis by blast
qed

lemma replace_char_sep:
  "a \<noteq> c \<Longrightarrow> b \<noteq> c \<Longrightarrow> filter (\<lambda>x. x = c) (replace_char a b s) = filter (\<lambda>x. x = c) s"
  by (induction s) (auto simp: replace_char_def)

text \<open>
  Where the code and the specification's wording agree: on a model name with at most one
  \<^verbatim>\<open>/\<close>.
\<close>

lemma normalize_at_most_one_sep:
  assumes "length (filter (\<lambda>c. c = CHR ''/'') model_name) \<le> 1"
  shows "normalize_for_filename model_name = spec_normalize_for_filename model_name"
proof -
  let ?n = "replace_char (CHR ''.'') (CHR ''_'') (replace_char (CHR ''-'') (CHR ''_'') model_name)"
  have cnt: "length (filter (\<lambda>c. c = CHR ''/'') ?n) \<le> 1"
    using assms by (simp add: replace_char_sep)
  show ?thesis
  proof (cases "CHR ''/'' \<in> set ?n")
    case True
    from one_sep_split [OF True cnt] obtain a b where
      "?n = a @ CHR ''/'' # b" "CHR ''/'' \<notin> set a" "CHR ''/'' \<notin> set b" by blast
    then show ?thesis
      using True after_only_sep [of "CHR ''/''" a b]
      by (simp add: normalize_for_filename_def spec_normalize_for_filename_def Let_def)
  next
    case False
    then show ?thesis
      by (simp add: normalize_for_filename_def spec_normalize_for_filename_def Let_def
            after_last_no_sep)
  qed
qed

lemma example_nested_run:
  "GenWorkflow_run example_runtime (example_gen\<lparr>gw_model := ''openrouter/google/gemini-2.0''\<rparr>)
     example_item \<lparr>files = example_files, calls = 0\<rparr> =
     (None,
      example_item\<lparr>generation :=
        JObj [(''openrouter/google/gemini-2.0'', JStr ''outputs/42/42_google.png'')]\<rparr>,
      \<lparr>files = example_files
         (''outputs/42/42_google.png'' \<mapsto> Blob,
          ''outputs/42/42.json'' \<mapsto>
            JsonText (asdict (example_item\<lparr>generation :=
              JObj [(''openrouter/google/gemini-2.0'', JStr ''outputs/42/42_google.png'')]\<rparr>))),
       calls = 1\<rparr>)"
proof -
  let ?m = "''openrouter/google/gemini-2.0''"
  let ?item' = "example_item\<lparr>generation := JObj [(?m, JStr ''outputs/42/42_google.png'')]\<rparr>"
  let ?fs1 = "example_files(''outputs/42/42_google.png'' \<mapsto> Blob)"
  have n: "normalize_for_filename ?m = ''google''"
    by (simp add: normalize_for_filename_def replace_char_def)
  have ip: "resolve_image_path (item_id example_item) ?m ''outputs/'' =
              Inr (PosixPath False [''outputs'', ''42'', ''42_google.png''])"
    by (simp add: resolve_image_path_def example_item_def build_image_filename_def n
          truediv_def Path_def startswith_sep_def)
  have ps: "path_str (PosixPath False [''outputs'', ''42'', ''42_google.png'']) =
              ''outputs/42/42_google.png''"
    by (simp add: path_str_def)
  have w: "write_file example_files ''outputs/42/42_google.png'' Blob = Inr ?fs1"
    by (simp add: write_file_def example_files_def)
  have u: "update_generation example_item ?m ''outputs/42/42_google.png'' = Inr ?item'"
    by (simp add: update_generation_def example_item_def)
  have jp: "item_json_path ''outputs/'' (item_id example_item) =
              Inr (PosixPath False [''outputs'', ''42'', ''42.json''])"
    by (simp add: item_json_path_def example_item_def truediv_def Path_def startswith_sep_def)
  have js: "path_str (PosixPath False [''outputs'', ''42'', ''42.json'']) = ''outputs/42/42.json''"
    by (simp add: path_str_def)
  have d: "os_path_dirname ''outputs/42/42.json'' = ''outputs/42''"
    by (simp add: os_path_dirname_def)
  have a: "asdict_checked example_runtime ?item' = Inr (asdict ?item')"
    by (simp add: asdict_checked_def example_runtime_def asdict_def example_item_def
          EvalEntry_asdict_def)
  have e: "all_strings (encodable example_runtime) (asdict ?item')"
    by (simp add: example_runtime_def asdict_def example_item_def EvalEntry_asdict_def)
  have s: "ItemStateManager_save_item example_runtime ''outputs/'' ?item' ?fs1 =
             (None, ?fs1(''outputs/42/42.json'' \<mapsto> JsonText (asdict ?item')))"
    by (simp add: ItemStateManager_save_item_def jp js save_item_def resolve_save_path_def
          endswith_def d os_makedirs_def a open_w_def json_dump_def e example_files_def)
  have g: "already_generated (example_gen\<lparr>gw_model := ?m\<rparr>) example_item example_files = Inr False"
    by (simp add: already_generated_def example_gen_def)
  have t: "text2image (gw_llm example_gen) ?m example_item 0 = (Inr Blob, Suc 0)"
    by (simp add: text2image_def example_gen_def example_item_def)
  have f: "gw_output_dir (example_gen\<lparr>gw_model := ?m\<rparr>) = ''outputs/''"
    by (simp add: example_gen_def)
  show ?thesis
    by (simp add: GenWorkflow_run_def g t f ip ps w u s)
qed

text \<open>
  Claim C5. The claim fails on the code for a model name with more than one
  \<^verbatim>\<open>/\<close>. For \<^verbatim>\<open>openrouter/google/gemini-2.0\<close> the specification's normalisation gives
  \<^verbatim>\<open>gemini_2_0\<close>; \<^verbatim>\<open>normalize_for_filename\<close> gives \<^verbatim>\<open>google\<close>, the image path of item
  \<^verbatim>\<open>42\<close> ends in \<^verbatim>\<open>42_google.png\<close>, a second model of the same vendor gets the same
  path, and a run of the generation driver writes the image there and nothing at
  \<^verbatim>\<open>42_gemini_2_0.png\<close>.
\<close>

theorem normalize_keeps_second_segment:
  "normalize_for_filename ''openrouter/google/gemini-2.0'' = ''google'' \<and>
   spec_normalize_for_filename ''openrouter/google/gemini-2.0'' = ''gemini_2_0'' \<and>
   resolve_image_path (JStr ''42'') ''openrouter/google/gemini-2.0'' ''outputs/'' =
     Inr (PosixPath False [''outputs'', ''42'', ''42_google.png'']) \<and>
   resolve_image_path (JStr ''42'') ''openrouter/google/imagen-3'' ''outputs/'' =
     Inr (PosixPath False [''outputs'', ''42'', ''42_google.png'']) \<and>
   files (snd (snd (GenWorkflow_run example_runtime
                      (example_gen\<lparr>gw_model := ''openrouter/google/gemini-2.0''\<rparr>)
                      example_item \<lparr>files = example_files, calls = 0\<rparr>)))
     ''outputs/42/42_google.png'' = Some Blob \<and>
   files (snd (snd (GenWorkflow_run example_runtime
                      (example_gen\<lparr>gw_model := ''openrouter/google/gemini-2.0''\<rparr>)
                      example_item \<lparr>files = example_files, calls = 0\<rparr>)))
     ''outputs/42/42_gemini_2_0.png'' = None"
proof -
  have a: "normalize_for_filename ''openrouter/google/gemini-2.0'' = ''google''"
       "normalize_for_filename ''openrouter/google/imagen-3'' = ''google''"
       "spec_normalize_for_filename ''openrouter/google/gemini-2.0'' = ''gemini_2_0''"
    by (simp_all add: normalize_for_filename_def spec_normalize_for_filename_def replace_char_def)
  have b: "resolve_image_path (JStr ''42'') ''openrouter/google/gemini-2.0'' ''outputs/'' =
     Inr (PosixPath False [''outputs'', ''42'', ''42_google.png''])"
     "resolve_image_path (JStr ''42'') ''openrouter/google/imagen-3'' ''outputs/'' =
     Inr (PosixPath False [''outputs'', ''42'', ''42_google.png''])"
    by (simp_all add: resolve_image_path_def build_image_filename_def a truediv_def Path_def
          startswith_sep_def)
  have c: "files (snd (snd (GenWorkflow_run example_runtime
                      (example_gen\<lparr>gw_model := ''openrouter/google/gemini-2.0''\<rparr>)
                      example_item \<lparr>files = example_files, calls = 0\<rparr>)))
     ''outputs/42/42_google.png'' = Some Blob"
    "files (snd (snd (GenWorkflow_run example_runtime
                      (example_gen\<lparr>gw_model := ''openrouter/google/gemini-2.0''\<rparr>)
                      example_item \<lparr>files = example_files, calls = 0\<rparr>)))
     ''outputs/42/42_gemini_2_0.png'' = None"
    unfolding example_nested_run by (simp_all add: example_files_def)
  from a b c show ?thesis by blast
qed

section \<open>Properties of the generate stage\<close>

lemma generate_completed_iff:
  assumes "m \<noteq> []"
  shows "generate_completed fs (JObj d) m = Inr True \<longleftrightarrow>
           (\<exists>g p. map_of d ''generation'' = Some (JObj g) \<and> map_of g m = Some (JStr p) \<and>
                  p \<noteq> [] \<and> path_exists fs (Path p) = Inr True)"
proof (cases "map_of d ''generation''")
  case None
  then show ?thesis by (simp add: generate_completed_def dict_get_def)
next
  case (Some gv)
  show ?thesis
  proof (cases gv)
    case (JObj g)
    show ?thesis
    proof (cases "map_of g m")
      case None
      with Some JObj show ?thesis by (simp add: generate_completed_def dict_get_def)
    next
      case (Some v)
      with \<open>map_of d ''generation'' = Some gv\<close> JObj show ?thesis
        by (cases v) (simp_all add: generate_completed_def dict_get_def)
    qed
  qed (use Some in \<open>simp_all add: generate_completed_def dict_get_def split: bool.splits\<close>)
qed

text \<open>
  Claim C3. (amended) For a record file holding a JSON object and a model name that
  is not empty, \<^verbatim>\<open>is_stage_completed\<close> for the stage \<^verbatim>\<open>generate\<close> returns, without
  raising, true exactly when the record's generation map has the model as a key, the
  value stored is a string that is not empty, and the file at that path exists when the
  check runs. The test the generation driver makes on the item in memory is true exactly
  under resume, when the item's generation map has the model as a key whose value is a
  string naming a file that exists. In both, a stored path whose file is missing gives
  false.
\<close>

theorem generate_stage_completed_iff:
  assumes "m \<noteq> []"
    and "fs (path_str (truediv (truediv (Path output_dir) iid) (iid @ ''.json''))) =
           Some (JsonText (JObj d))"
  shows "is_stage_completed fs output_dir iid ''generate'' (Some m) dims =
           Inr (\<exists>g p. map_of d ''generation'' = Some (JObj g) \<and> map_of g m = Some (JStr p) \<and>
                      p \<noteq> [] \<and> path_exists fs (Path p) = Inr True) \<and>
         (\<forall>flow item g. generation item = JObj g \<longrightarrow>
            (already_generated flow item fs = Inr True \<longleftrightarrow>
               gw_resume flow \<and>
               (\<exists>p. map_of g (gw_model flow) = Some (JStr p) \<and>
                    path_exists fs (Path p) = Inr True)))"
proof -
  let ?j = "truediv (truediv (Path output_dir) iid) (iid @ ''.json'')"
  have ex: "path_exists fs ?j = Inr True"
    using assms(2) by (simp add: path_exists_def)
  have body: "stage_completed_body fs (path_str ?j) ''generate'' (Some m) dims =
                generate_completed fs (JObj d) m"
    using assms by (simp add: stage_completed_body_def json_load_def no_method_def)
  have "is_stage_completed fs output_dir iid ''generate'' (Some m) dims =
          Inr (generate_completed fs (JObj d) m = Inr True)"
    by (cases "generate_completed fs (JObj d) m")
       (simp_all add: is_stage_completed_def Let_def ex body)
  then have a: "is_stage_completed fs output_dir iid ''generate'' (Some m) dims =
           Inr (\<exists>g p. map_of d ''generation'' = Some (JObj g) \<and> map_of g m = Some (JStr p) \<and>
                      p \<noteq> [] \<and> path_exists fs (Path p) = Inr True)"
    by (simp add: generate_completed_iff [OF assms(1)])
  have b: "already_generated flow item fs = Inr True \<longleftrightarrow>
               gw_resume flow \<and>
               (\<exists>p. map_of g (gw_model flow) = Some (JStr p) \<and>
                    path_exists fs (Path p) = Inr True)"
    if g: "generation item = JObj g" for flow item g
  proof (cases "map_of g (gw_model flow)")
    case None
    with g show ?thesis by (simp add: already_generated_def check_generation_exists_def)
  next
    case (Some v)
    with g show ?thesis
      by (cases v) (simp_all add: already_generated_def check_generation_exists_def)
  qed
  from a b show ?thesis by blast
qed

theorem generate_stage_completed_iff_witness:
  "is_stage_completed example_done_files ''outputs/'' ''42'' ''generate'' (Some ''gemini-2.0'') None
     = Inr True \<and>
   is_stage_completed (example_done_files(''outputs/42/42_gemini_2_0.png'' := None))
        ''outputs/'' ''42'' ''generate'' (Some ''gemini-2.0'') None = Inr False \<and>
   already_generated (example_gen\<lparr>gw_resume := True\<rparr>)
     (example_item\<lparr>generation := JObj [(''gemini-2.0'', JStr ''outputs/42/42_gemini_2_0.png'')]\<rparr>)
     example_done_files = Inr True \<and>
   already_generated (example_gen\<lparr>gw_resume := True\<rparr>)
     (example_item\<lparr>generation := JObj [(''gemini-2.0'', JStr ''outputs/42/42_gemini_2_0.png'')]\<rparr>)
     (example_done_files(''outputs/42/42_gemini_2_0.png'' := None)) \<noteq> Inr True"
proof -
  let ?d = "[(''id'', JStr ''42''), (''reference_image_url'', JNull),
           (''t2i_prompt'', JStr ''draw''), (''chart_type'', JNull),
           (''generation'', JObj [(''gemini-2.0'', JStr ''outputs/42/42_gemini_2_0.png'')]),
           (''evaluation'', JArr [])]"
  let ?gone = "example_done_files(''outputs/42/42_gemini_2_0.png'' := None)"
  let ?flow = "example_gen\<lparr>gw_resume := True\<rparr>"
  let ?g = "[(''gemini-2.0'', JStr ''outputs/42/42_gemini_2_0.png'')]"
  let ?item = "example_item\<lparr>generation := JObj ?g\<rparr>"
  have m: "''gemini-2.0'' \<noteq> []" by simp
  have p: "path_str (truediv (truediv (Path ''outputs/'') ''42'') (''42'' @ ''.json''))
             = ''outputs/42/42.json''"
    by (simp add: path_str_def truediv_def Path_def startswith_sep_def)
  have q: "path_str (Path ''outputs/42/42_gemini_2_0.png'') = ''outputs/42/42_gemini_2_0.png''"
    by (simp add: path_str_def Path_def startswith_sep_def)
  have r1: "example_done_files
              (path_str (truediv (truediv (Path ''outputs/'') ''42'') (''42'' @ ''.json''))) =
            Some (JsonText (JObj ?d))"
    unfolding p by (simp add: example_done_files_def example_saved_def)
  have r2: "?gone (path_str (truediv (truediv (Path ''outputs/'') ''42'') (''42'' @ ''.json''))) =
            Some (JsonText (JObj ?d))"
    unfolding p by (simp add: example_done_files_def example_saved_def)
  have e1: "path_exists example_done_files (Path ''outputs/42/42_gemini_2_0.png'') = Inr True"
    unfolding path_exists_def q by (simp add: example_done_files_def)
  have e2: "path_exists ?gone (Path ''outputs/42/42_gemini_2_0.png'') = Inr False"
    unfolding path_exists_def q by simp
  have g: "generation ?item = JObj ?g" by simp
  have k: "gw_resume ?flow" "map_of ?g (gw_model ?flow) = Some (JStr ''outputs/42/42_gemini_2_0.png'')"
    by (simp_all add: example_gen_def)
  note t1 = generate_stage_completed_iff [where fs = example_done_files
              and output_dir = "''outputs/''" and iid = "''42''" and dims = None, OF m r1]
  note t2 = generate_stage_completed_iff [where fs = ?gone and output_dir = "''outputs/''"
              and iid = "''42''" and dims = None, OF m r2]
  from t1 e1
  have a: "is_stage_completed example_done_files ''outputs/'' ''42'' ''generate''
             (Some ''gemini-2.0'') None = Inr True"
    by simp
  from t2 e2
  have b: "is_stage_completed ?gone ''outputs/'' ''42'' ''generate'' (Some ''gemini-2.0'') None
             = Inr False"
    by simp
  from t1 g k e1 have c: "already_generated ?flow ?item example_done_files = Inr True"
    by blast
  from t2 g k e2 have d: "already_generated ?flow ?item ?gone \<noteq> Inr True"
    by auto
  from a b c d show ?thesis by blast
qed

text \<open>
  The guards of the \<^verbatim>\<open>generate\<close> branch: with the empty string as model name, or with the
  empty string as stored path (which \<^verbatim>\<open>Path\<close> reads as the current directory), the check
  is false although the key is in the map and the path exists.
\<close>

theorem generate_stage_empty_name_counterexample:
  "from_dict ((\<lambda>p. None)(''outputs/42/42.json'' \<mapsto>
                  JsonText (JObj [(''id'', JStr ''42''),
                                  (''generation'', JObj [([], JStr ''outputs/42/42_.png'')])]),
                ''outputs/42/42_.png'' \<mapsto> Blob)) ''outputs/42/42.json'' =
     Inr \<lparr>item_id = JStr ''42'', reference_image_url = JNull, t2i_prompt = JNull,
           chart_type = JNull, generation = JObj [([], JStr ''outputs/42/42_.png'')],
           evaluation = []\<rparr> \<and>
   path_exists ((\<lambda>p. None)(''outputs/42/42.json'' \<mapsto>
                  JsonText (JObj [(''id'', JStr ''42''),
                                  (''generation'', JObj [([], JStr ''outputs/42/42_.png'')])]),
                ''outputs/42/42_.png'' \<mapsto> Blob)) (Path ''outputs/42/42_.png'') = Inr True \<and>
   is_stage_completed
        ((\<lambda>p. None)(''outputs/42/42.json'' \<mapsto>
                  JsonText (JObj [(''id'', JStr ''42''),
                                  (''generation'', JObj [([], JStr ''outputs/42/42_.png'')])]),
                ''outputs/42/42_.png'' \<mapsto> Blob))
        ''outputs/'' ''42'' ''generate'' (Some []) None = Inr False \<and>
   path_exists ((\<lambda>p. None)(''outputs/42/42.json'' \<mapsto>
                  JsonText (JObj [(''id'', JStr ''42''),
                                  (''generation'', JObj [(''m'', JStr [])])]),
                ''.'' \<mapsto> Unreadable)) (Path []) = Inr True \<and>
   is_stage_completed
        ((\<lambda>p. None)(''outputs/42/42.json'' \<mapsto>
                  JsonText (JObj [(''id'', JStr ''42''),
                                  (''generation'', JObj [(''m'', JStr [])])]),
                ''.'' \<mapsto> Unreadable))
        ''outputs/'' ''42'' ''generate'' (Some ''m'') None = Inr False"
proof -
  have p: "path_str (truediv (truediv (Path ''outputs/'') ''42'') (''42'' @ ''.json''))
             = ''outputs/42/42.json''"
    by (simp add: path_str_def truediv_def Path_def startswith_sep_def)
  have q: "path_str (Path ''outputs/42/42_.png'') = ''outputs/42/42_.png''"
       "path_str (Path []) = ''.''"
    by (simp_all add: path_str_def Path_def startswith_sep_def)
  show ?thesis
    by (simp add: from_dict_def json_load_def VISItem_of_json_def dict_get_def path_exists_def
          is_stage_completed_def stage_completed_body_def no_method_def generate_completed_def
          p q Let_def)
qed

section \<open>Properties of the drivers\<close>

text \<open>
  Claim C8. On an item whose evaluation list is empty the evaluation driver ends
  with an exception, whatever the resume mode and the models, leaving the item, the files
  and the number of capability calls as they were; the exception is
  \<^verbatim>\<open>ValueError\<close> whenever the image path is given or the \<^verbatim>\<open>id\<close> is a string.
\<close>

theorem evaluation_of_no_entries_fails:
  assumes "evaluation item = []"
  shows "(\<exists>e. EvalWorkflow_run rt flow item g image_path w = (Some e, item, w)) \<and>
         (image_path \<noteq> None \<or> (\<exists>i. item_id item = JStr i) \<longrightarrow>
            EvalWorkflow_run rt flow item g image_path w = (Some ValueError, item, w))"
proof -
  have c: "check_evaluation_complete item g (ew_eval_model flow) = Inr False"
    using assms by (simp add: check_evaluation_complete_def)
  have a: "evaluate_all rt flow item p g w = (Some ValueError, item, w)" for p
    using assms by (simp add: evaluate_all_def)
  show ?thesis
  proof (cases image_path)
    case (Some p)
    then show ?thesis by (simp add: EvalWorkflow_run_def c a)
  next
    case None
    then show ?thesis
      by (cases "item_id item")
         (simp_all add: EvalWorkflow_run_def resolve_image_path_def c a)
  qed
qed

theorem evaluation_of_no_entries_fails_witness:
  "EvalWorkflow_run example_runtime example_eval (example_item\<lparr>evaluation := []\<rparr>) ''m1'' None
     \<lparr>files = example_files, calls = 0\<rparr> =
     (Some ValueError, example_item\<lparr>evaluation := []\<rparr>, \<lparr>files = example_files, calls = 0\<rparr>)"
proof -
  have e: "evaluation (example_item\<lparr>evaluation := []\<rparr>) = []" by simp
  have i: "\<exists>i. item_id (example_item\<lparr>evaluation := []\<rparr>) = JStr i"
    by (simp add: example_item_def)
  from evaluation_of_no_entries_fails [OF e, where image_path = None and flow = example_eval
         and g = "''m1''" and w = "\<lparr>files = example_files, calls = 0\<rparr>"
         and rt = example_runtime] i
  show ?thesis by blast
qed

lemma judgments_appended_refl: "judgments_appended x x"
  by (cases x) simp_all

lemma judgments_appended_all_refl: "list_all2 judgments_appended xs xs"
  by (simp add: list_all2_refl judgments_appended_refl)

lemma only_grows_refl: "only_grows item item"
  by (simp add: only_grows_def judgments_appended_all_refl)

lemma update_generation_grows:
  "update_generation item model p = Inr item' \<Longrightarrow>
     only_grows item item' \<and> model \<in> generation_keys (generation item')"
proof -
  assume a: "update_generation item model p = Inr item'"
  then obtain d where d: "generation item = JObj d"
      and i: "item' = item\<lparr>generation := JObj (AList.update model (JStr p) d)\<rparr>"
    by (cases "generation item") (auto simp: update_generation_def)
  have "fst ` set d \<subseteq> fst ` set (AList.update model (JStr p) d)"
    and "model \<in> fst ` set (AList.update model (JStr p) d)"
    unfolding dom_update by blast+
  with d i show ?thesis
    by (simp add: only_grows_def judgments_appended_all_refl)
qed

lemma evaluate_entries_grows:
  "evaluate_entries rt flow ip g item seen todo w = (r, item', w') \<Longrightarrow>
     \<exists>todo'. item' = item\<lparr>evaluation := seen @ todo'\<rparr> \<and>
             list_all2 judgments_appended todo todo'"
proof (induction rt flow ip g item seen todo w rule: evaluate_entries.induct)
  case (1 rt flow image_path g item seen w)
  then show ?case by auto
next
  case (2 rt flow image_path g item seen j todo w)
  then show ?case by (auto simp: judgments_appended_all_refl)
next
  case (3 rt flow image_path g item seen e todo w)
  show ?case
  proof (cases "ew_resume flow \<and> has_judgment e g (ew_eval_model flow)")
    case True
    with 3 obtain t where "item' = item\<lparr>evaluation := (seen @ [Entry e]) @ t\<rparr>"
        "list_all2 judgments_appended todo t"
      by auto
    then have "item' = item\<lparr>evaluation := seen @ Entry e # t\<rparr> \<and>
               list_all2 judgments_appended (Entry e # todo) (Entry e # t)"
      by simp
    then show ?thesis by blast
  next
    case False
    obtain res n where je: "judge_entry (ew_llm flow) e g (ew_eval_model flow) image_path (calls w) = (res, n)"
      by (cases "judge_entry (ew_llm flow) e g (ew_eval_model flow) image_path (calls w)") auto
    show ?thesis
    proof (cases res)
      case (Inl err)
      with 3(3) False je have "item' = item\<lparr>evaluation := seen @ Entry e # todo\<rparr>" by auto
      moreover have "list_all2 judgments_appended (Entry e # todo) (Entry e # todo)"
        by (rule judgments_appended_all_refl)
      ultimately show ?thesis by blast
    next
      case (Inr j)
      let ?e' = "e\<lparr>judgments := judgments e @ [j]\<rparr>"
      let ?item' = "item\<lparr>evaluation := seen @ Entry ?e' # todo\<rparr>"
      have step: "judgments_appended (Entry e) (Entry ?e')" by simp
      obtain sr fs' where sv:
        "ItemStateManager_save_item rt (ew_output_dir flow) ?item' (files w) = (sr, fs')"
        by (cases "ItemStateManager_save_item rt (ew_output_dir flow) ?item' (files w)") auto
      show ?thesis
      proof (cases sr)
        case (Some err)
        with 3(3) False je Inr sv have "item' = ?item'" by (auto simp: Let_def)
        moreover have "list_all2 judgments_appended (Entry e # todo) (Entry ?e' # todo)"
          using step by (simp add: judgments_appended_all_refl)
        ultimately show ?thesis by blast
      next
        case None
        with 3(3) False je Inr sv
        have "evaluate_entries rt flow image_path g item (seen @ [Entry ?e']) todo
                \<lparr>files = fs', calls = n\<rparr> = (r, item', w')"
          by (auto simp: Let_def)
        from 3(2) [OF False je [symmetric] Inr refl refl _ _ this] sv None
        obtain t where "item' = item\<lparr>evaluation := (seen @ [Entry ?e']) @ t\<rparr>"
          "list_all2 judgments_appended todo t" by auto
        then have "item' = item\<lparr>evaluation := seen @ Entry ?e' # t\<rparr> \<and>
               list_all2 judgments_appended (Entry e # todo) (Entry ?e' # t)"
          using step by simp
        then show ?thesis by blast
      qed
    qed
  qed
qed

text \<open>
  Claim C9. Every mutation only grows the record. After \<^verbatim>\<open>update_generation\<close>,
  after a run of the generation driver and after a run of the evaluation driver, ended by
  an exception or not, the keys of the generation map include the keys before, and every
  element of the evaluation list is the element before with judgments appended at the end
  of its list; \<^verbatim>\<open>add_judgment\<close> appends to the entry's list and changes nothing else.
\<close>

theorem mutations_only_grow:
  "(\<forall>item'. update_generation item model p = Inr item' \<longrightarrow> only_grows item item') \<and>
   judgments_appended (Entry e) (Entry (add_judgment e g m an ans)) \<and>
   (\<forall>r item' w'. GenWorkflow_run rt gflow item w = (r, item', w') \<longrightarrow> only_grows item item') \<and>
   (\<forall>r item' w'. EvalWorkflow_run rt eflow item g ip w = (r, item', w') \<longrightarrow> only_grows item item')"
proof -
  have a: "\<forall>item'. update_generation item model p = Inr item' \<longrightarrow> only_grows item item'"
    by (simp add: update_generation_grows)
  have b: "judgments_appended (Entry e) (Entry (add_judgment e g m an ans))"
    by (simp add: add_judgment_def)
  have c: "only_grows item item'" if "GenWorkflow_run rt gflow item w = (r, item', w')" for r item' w'
    using that
    by (auto simp: GenWorkflow_run_def Let_def only_grows_refl
             split: sum.splits bool.splits prod.splits
             dest: update_generation_grows)
  have d: "only_grows item item'" if run: "EvalWorkflow_run rt eflow item g ip w = (r, item', w')"
    for r item' w'
  proof (cases "item' = item")
    case True
    then show ?thesis by (simp add: only_grows_refl)
  next
    case False
    with run obtain ip' where "evaluate_entries rt eflow ip' g item [] (evaluation item) w = (r, item', w')"
      by (auto simp: EvalWorkflow_run_def evaluate_all_def
               split: sum.splits bool.splits option.splits if_splits)
    from evaluate_entries_grows [OF this] show ?thesis
      by (auto simp: only_grows_def)
  qed
  from a b c d show ?thesis by blast
qed

lemma example_paths:
  "path_str (truediv (truediv (Path ''outputs/'') ''42'') ''42.json'') = ''outputs/42/42.json''"
  "path_str (truediv (truediv (Path ''outputs/'') ''42'') ''42_m1.png'') = ''outputs/42/42_m1.png''"
  "os_path_dirname ''outputs/42/42.json'' = ''outputs/42''"
  "normalize_for_filename ''m1'' = ''m1''"
  by (simp_all add: path_str_def truediv_def Path_def startswith_sep_def os_path_dirname_def
        normalize_for_filename_def replace_char_def)

lemma example_judged_state_save:
  "ItemStateManager_save_item example_runtime ''outputs/'' example_judged example_files =
     (None, example_files(''outputs/42/42.json'' \<mapsto> JsonText (asdict example_judged)))"
proof -
  have a: "asdict_checked example_runtime example_judged = Inr (asdict example_judged)"
    by (simp add: asdict_checked_def example_runtime_def example_judged_asdict)
  have j: "all_strings (encodable example_runtime) (asdict example_judged)"
    by (simp add: example_runtime_def example_judged_asdict)
  have i: "item_id example_judged = JStr ''42''"
    by (simp add: example_judged_def example_item_def)
  show ?thesis
    by (simp add: ItemStateManager_save_item_def item_json_path_def i example_paths save_item_def
          resolve_save_path_def endswith_def os_makedirs_def a open_w_def json_dump_def j
          example_files_def)
qed

lemma example_eval_run:
  "EvalWorkflow_run example_runtime example_eval example_item ''m1'' None
     \<lparr>files = example_files, calls = 0\<rparr> =
     (None, example_judged,
      \<lparr>files = example_files(''outputs/42/42.json'' \<mapsto> JsonText (asdict example_judged)),
       calls = 1\<rparr>)"
proof -
  have j: "judge_entry (ew_llm example_eval)
             \<lparr>source = JStr ''seed'', ground = JStr [], question = JStr ''Is there a title?'',
              question_type = JStr [], judgments = []\<rparr>
             ''m1'' ''m2'' ''outputs/42/42_m1.png'' 0 =
           (Inr \<lparr>eval_model = JStr ''m2'', gen_model = JStr ''m1'',
                 analysis = JStr ''the title is at the top'', answer = JStr ''1''\<rparr>, Suc 0)"
    by (simp add: judge_entry_def example_eval_def dict_get_def)
  have it: "example_item\<lparr>evaluation :=
              [Entry \<lparr>source = JStr ''seed'', ground = JStr [],
                      question = JStr ''Is there a title?'', question_type = JStr [],
                      judgments = [\<lparr>eval_model = JStr ''m2'', gen_model = JStr ''m1'',
                                    analysis = JStr ''the title is at the top'',
                                    answer = JStr ''1''\<rparr>]\<rparr>]\<rparr> = example_judged"
    by (simp add: example_judged_def)
  have ev: "evaluation example_item =
              [Entry \<lparr>source = JStr ''seed'', ground = JStr [],
                      question = JStr ''Is there a title?'', question_type = JStr [],
                      judgments = []\<rparr>]"
    by (simp add: example_item_def)
  have f: "ew_eval_model example_eval = ''m2''" "ew_output_dir example_eval = ''outputs/''"
       "ew_resume example_eval"
    by (simp_all add: example_eval_def)
  have i: "item_id example_item = JStr ''42''" by (simp add: example_item_def)
  have l: "evaluate_entries example_runtime example_eval ''outputs/42/42_m1.png'' ''m1'' example_item
             [] (evaluation example_item) \<lparr>files = example_files, calls = 0\<rparr> =
           (None, example_judged,
            \<lparr>files = example_files(''outputs/42/42.json'' \<mapsto> JsonText (asdict example_judged)),
             calls = Suc 0\<rparr>)"
    by (simp add: ev f has_judgment_def j it example_judged_state_save)
  have ne: "evaluation example_item \<noteq> []" by (simp add: ev)
  have ea: "evaluate_all example_runtime example_eval example_item ''outputs/42/42_m1.png'' ''m1''
              \<lparr>files = example_files, calls = 0\<rparr> =
            (None, example_judged,
             \<lparr>files = example_files(''outputs/42/42.json'' \<mapsto> JsonText (asdict example_judged)),
              calls = Suc 0\<rparr>)"
    unfolding evaluate_all_def using ne l by simp
  have ce: "check_evaluation_complete example_item ''m1'' ''m2'' = Inr False"
    by (simp add: check_evaluation_complete_def ev has_judgment_def)
  show ?thesis
    by (simp add: EvalWorkflow_run_def i f resolve_image_path_def build_image_filename_def
          example_paths ce ea)
qed

theorem mutations_only_grow_witness:
  "only_grows example_item example_judged \<and>
   EvalWorkflow_run example_runtime example_eval example_item ''m1'' None
     \<lparr>files = example_files, calls = 0\<rparr> =
     (None, example_judged,
      \<lparr>files = example_files(''outputs/42/42.json'' \<mapsto> JsonText (asdict example_judged)),
       calls = 1\<rparr>) \<and>
   update_generation example_item ''gemini-2.0'' ''outputs/42/42_gemini_2_0.png'' =
     Inr (example_item\<lparr>generation :=
            JObj [(''gemini-2.0'', JStr ''outputs/42/42_gemini_2_0.png'')]\<rparr>) \<and>
   only_grows example_item
     (example_item\<lparr>generation :=
        JObj [(''gemini-2.0'', JStr ''outputs/42/42_gemini_2_0.png'')]\<rparr>) \<and>
   only_grows example_item
     (fst (snd (GenWorkflow_run example_runtime example_gen example_item
                  \<lparr>files = example_files, calls = 0\<rparr>)))"
proof -
  let ?w = "\<lparr>files = example_files, calls = 0\<rparr>"
  have u: "update_generation example_item ''gemini-2.0'' ''outputs/42/42_gemini_2_0.png'' =
     Inr (example_item\<lparr>generation :=
            JObj [(''gemini-2.0'', JStr ''outputs/42/42_gemini_2_0.png'')]\<rparr>)"
    by (simp add: update_generation_def example_item_def)
  obtain r item' w' where
    run: "GenWorkflow_run example_runtime example_gen example_item ?w = (r, item', w')"
    by (cases "GenWorkflow_run example_runtime example_gen example_item ?w") auto
  note t = mutations_only_grow [where item = example_item and eflow = example_eval
             and g = "''m1''" and ip = None and w = ?w and gflow = example_gen
             and model = "''gemini-2.0''" and p = "''outputs/42/42_gemini_2_0.png''"
             and rt = example_runtime]
  from t example_eval_run have a: "only_grows example_item example_judged" by blast
  from t u have b: "only_grows example_item
     (example_item\<lparr>generation :=
        JObj [(''gemini-2.0'', JStr ''outputs/42/42_gemini_2_0.png'')]\<rparr>)" by blast
  from t run have "only_grows example_item item'" by blast
  with run have c: "only_grows example_item
      (fst (snd (GenWorkflow_run example_runtime example_gen example_item ?w)))"
    by simp
  from a b c u example_eval_run show ?thesis by blast
qed

section \<open>The stage check and the existence test\<close>

text \<open>
  Once the existence test before the \<^verbatim>\<open>try\<close> has answered, the check returns a truth
  value whatever the body does.
\<close>

lemma is_stage_completed_after_exists:
  assumes "path_exists fs (truediv (truediv (Path output_dir) iid) (iid @ ''.json'')) = Inr b"
  shows "is_stage_completed fs output_dir iid stage method dims =
           Inr (stage_completed_body fs
                  (path_str (truediv (truediv (Path output_dir) iid) (iid @ ''.json'')))
                  stage method dims = Inr True)"
proof -
  let ?j = "truediv (truediv (Path output_dir) iid) (iid @ ''.json'')"
  show ?thesis
  proof (cases b)
    case True
    with assms show ?thesis
      by (cases "stage_completed_body fs (path_str ?j) stage method dims")
         (simp_all add: is_stage_completed_def Let_def)
  next
    case False
    with assms have "fs (path_str ?j) = None"
      by (auto simp: path_exists_def split: option.splits if_splits)
    then have "stage_completed_body fs (path_str ?j) stage method dims = Inl FileNotFoundError"
      by (simp add: stage_completed_body_def json_load_def)
    with assms False show ?thesis by (simp add: is_stage_completed_def Let_def)
  qed
qed

text \<open>
  Claim C10. The claim fails on the code: the test that the record file exists
  stands before the \<^verbatim>\<open>try\<close>. For an item \<^verbatim>\<open>id\<close> of 256 characters, in an output
  directory that exists, \<^verbatim>\<open>is_stage_completed\<close> raises \<^verbatim>\<open>OSError\<close> instead of
  returning false; for the \<^verbatim>\<open>id\<close> 42 in the same store it returns false.
\<close>

theorem is_stage_completed_raises_on_long_id:
  "is_stage_completed no_files ''outputs/'' (replicate 256 (CHR ''a'')) ''generate'' (Some ''m'') None
     = Inl OSError \<and>
   is_stage_completed no_files ''outputs/'' ''42'' ''generate'' (Some ''m'') None = Inr False"
proof -
  let ?X = "replicate 256 (CHR ''a'')"
  have "no_files (path_str (truediv (truediv (Path ''outputs/'') ?X) (?X @ ''.json''))) = Some NoStat"
    using long_record_path_refused unfolding long_record_path by (simp only: no_files_def if_True)
  then have "path_exists no_files (truediv (truediv (Path ''outputs/'') ?X) (?X @ ''.json''))
               = Inl OSError"
    by (simp add: path_exists_def)
  then have a: "is_stage_completed no_files ''outputs/'' ?X ''generate'' (Some ''m'') None
                  = Inl OSError"
    by (simp add: is_stage_completed_def Let_def)
  have p: "path_str (truediv (truediv (Path ''outputs/'') ''42'') (''42'' @ ''.json''))
             = ''outputs/42/42.json''"
    by (simp add: path_str_def truediv_def Path_def startswith_sep_def)
  have "\<not> name_too_long ''outputs/42/42.json''"
    by (simp add: name_too_long_def)
  then have "path_exists no_files (truediv (truediv (Path ''outputs/'') ''42'') (''42'' @ ''.json''))
               = Inr False"
    unfolding path_exists_def p by (simp add: no_files_def)
  then have b: "is_stage_completed no_files ''outputs/'' ''42'' ''generate'' (Some ''m'') None
                  = Inr False"
    by (simp add: is_stage_completed_def Let_def)
  from a b show ?thesis by blast
qed

end
